theory Spec2Isabelle
  imports Main "HOL-Library.Word" "HOL-Library.Sublist"
begin

text \<open>
  A model of the two modules of the data analyst agent: \<open>code_executor.py\<close>, which
  runs a code string in a Docker container and returns a dictionary, and \<open>main.py\<close>,
  which drives three stages of code generation and execution behind one HTTP endpoint.
  The Docker daemon, the host's files, the generator and the JSON parser are the
  environment: the functions take its state and its answers as arguments and return the
  new state with their result. An exception is a value: \<open>Inl e\<close> where the source
  raises \<open>e\<close>. A call that never returns has the outcome \<open>None\<close>:
  \<open>container.wait()\<close> has no timeout and blocks as long as the process runs.
\<close>

section \<open>Text and bytes\<close>

text \<open>
  A Python \<open>str\<close> is a sequence of Unicode code points and a \<open>bytes\<close> object a sequence
  of octets. Literals of the source are written with \<open>lit\<close>; a character that cannot stand
  in an Isabelle literal (newline, backslash, a quote next to the delimiter) is written as
  its code point.
\<close>

type_synonym str = "nat list"
type_synonym bytes = "8 word list"

definition lit :: "string \<Rightarrow> str" where
  "lit s = map of_char s"

definition nl :: str where
  "nl = [10]"

text \<open>The characters that \<open>str.strip()\<close> removes: those for which \<open>str.isspace\<close> holds.\<close>

definition is_space :: "nat \<Rightarrow> bool" where
  "is_space c =
     ((9 \<le> c \<and> c \<le> 13) \<or> (28 \<le> c \<and> c \<le> 32) \<or> c = 133 \<or> c = 160 \<or> c = 5760
      \<or> (8192 \<le> c \<and> c \<le> 8202) \<or> c = 8232 \<or> c = 8233 \<or> c = 8239 \<or> c = 8287
      \<or> c = 12288)"

definition strip :: "str \<Rightarrow> str" where
  "strip s = rev (dropWhile is_space (rev (dropWhile is_space s)))"

text \<open>
  \<open>str.replace(old, new)\<close>: the occurrences of \<open>old\<close> are found from the left and do not
  overlap; the text is scanned once. With an empty \<open>old\<close>, \<open>new\<close> is put before every
  character and at the end.
\<close>

function py_replace :: "str \<Rightarrow> str \<Rightarrow> str \<Rightarrow> str" where
  "py_replace old new [] = (if old = [] then new else [])"
| "py_replace old new (c # cs) =
     (if old = [] then new @ c # py_replace old new cs
      else if prefix old (c # cs) then new @ py_replace old new (drop (length old) (c # cs))
      else c # py_replace old new cs)"
  by pat_completeness auto
termination
  by (relation "measure (\<lambda>(old, new, s). length s)") auto

text \<open>
  \<open>bytes.decode('utf-8')\<close> with the default strict error handling: \<open>None\<close> stands for
  \<open>UnicodeDecodeError\<close>. Overlong forms, surrogates and values above U+10FFFF are
  rejected.
\<close>

definition continuation :: "nat \<Rightarrow> bool" where
  "continuation b = (128 \<le> b \<and> b < 192)"

fun utf8 :: "nat list \<Rightarrow> str option" where
  "utf8 [] = Some []"
| "utf8 (b # bs) =
     (if b < 128 then map_option ((#) b) (utf8 bs)
      else if 194 \<le> b \<and> b < 224 then
        (case bs of
           b1 # r \<Rightarrow>
             if continuation b1 then map_option ((#) ((b - 192) * 64 + (b1 - 128))) (utf8 r)
             else None
         | _ \<Rightarrow> None)
      else if 224 \<le> b \<and> b < 240 then
        (case bs of
           b1 # b2 # r \<Rightarrow>
             (let cp = (b - 224) * 4096 + (b1 - 128) * 64 + (b2 - 128) in
              if continuation b1 \<and> continuation b2 \<and> 2048 \<le> cp \<and> \<not> (55296 \<le> cp \<and> cp < 57344)
              then map_option ((#) cp) (utf8 r) else None)
         | _ \<Rightarrow> None)
      else if 240 \<le> b \<and> b < 245 then
        (case bs of
           b1 # b2 # b3 # r \<Rightarrow>
             (let cp = (b - 240) * 262144 + (b1 - 128) * 4096 + (b2 - 128) * 64 + (b3 - 128) in
              if continuation b1 \<and> continuation b2 \<and> continuation b3 \<and> 65536 \<le> cp \<and> cp < 1114112
              then map_option ((#) cp) (utf8 r) else None)
         | _ \<Rightarrow> None)
      else None)"

definition decode_utf8 :: "bytes \<Rightarrow> str option" where
  "decode_utf8 bs = utf8 (map unat bs)"

section \<open>The sandbox runner (code_executor.py)\<close>

subsection \<open>Exceptions and results\<close>

text \<open>
  The exceptions that reach the handlers of the two source files. \<open>ImageNotFound\<close> is a
  subclass of \<open>NotFound\<close> in the Docker SDK; \<open>NameConflict\<close> is the error of the daemon
  when a container is created under a name that is in use; \<open>APIError\<close> is any other
  failure of a daemon call and \<open>DockerException\<close> a failure to build the client.
  \<open>JSONDecodeError\<close> and \<open>UnicodeDecodeError\<close> are subclasses of \<open>ValueError\<close>;
  the constructor \<open>ValueError\<close> stands for the instances of no subclass.
\<close>

datatype exn =
    DockerException str
  | ImageNotFound str
  | NotFound str
  | NameConflict str
  | APIError str
  | UnicodeDecodeError
  | JSONDecodeError str
  | IndexError str
  | ValueError str
  | OSError str
  | OtherException str

fun is_NotFound :: "exn \<Rightarrow> bool" where
  "is_NotFound (NotFound _) = True"
| "is_NotFound (ImageNotFound _) = True"
| "is_NotFound _ = False"

text \<open>The dictionary that \<open>run_code_in_sandbox\<close> returns.\<close>

record sandbox_result =
  stdout :: str
  stderr :: str
  exit_code :: int

subsection \<open>The daemon, the host and the environment\<close>

record run_request =
  req_image :: str
  req_command :: "str list"
  req_name :: str
  req_detach :: bool
  req_remove :: bool
  req_volumes :: "(str \<times> str \<times> str) list"

record container =
  c_id :: nat
  c_name :: str
  c_stdout :: bytes
  c_stderr :: bytes
  c_status :: "int option"
  c_exited :: bool

datatype call =
    ImagesGet str
  | ContainersGet str
  | ContainerRemove nat bool
  | ContainersRun run_request
  | ContainerWait nat
  | ContainerLogs nat bool bool

datatype level = INFO | ERROR

text \<open>
  The state outside the program: the images and containers of the daemon, the files of
  the host, and three journals (the calls received by the daemon, the records written by
  the logger of \<open>code_executor\<close>, the prompts sent to the generator).
\<close>

record world =
  images :: "str set"
  containers :: "container list"
  next_id :: nat
  files :: "str set"
  calls :: "call list"
  logged :: "(level \<times> str) list"
  prompts :: "str list"

text \<open>
  The behaviour of the process that a container runs: whether it ends, what it writes
  to its two streams, the status code in the answer of the daemon to \<open>wait\<close> (absent
  when the answer has no \<open>StatusCode\<close>), and the files of the host that it leaves.
\<close>

record proc_outcome =
  p_terminates :: bool
  p_stdout :: bytes
  p_stderr :: bytes
  p_status :: "int option"
  p_files :: "str set"

text \<open>
  What the environment answers during one call of \<open>run_code_in_sandbox\<close>: for each
  call site the failure it raises there (\<open>None\<close>: it raises none), the behaviour of the
  process started from a request on the files of the host, and the rendering \<open>str(e)\<close>
  of an exception.
\<close>

record docker_env =
  from_env_fault :: "str option"
  images_get_fault :: "str option"
  containers_get_fault :: "str option"
  stale_remove_fault :: "str option"
  create_fault :: "str option"
  start_fault :: "str option"
  wait_fault :: "str option"
  logs_stdout_fault :: "str option"
  logs_stderr_fault :: "str option"
  teardown_fault :: "str option"
  process :: "run_request \<Rightarrow> str set \<Rightarrow> proc_outcome"
  str_exn :: "exn \<Rightarrow> str"

definition called :: "call \<Rightarrow> world \<Rightarrow> world" where
  "called c w = w\<lparr>calls := calls w @ [c]\<rparr>"

definition logger :: "level \<Rightarrow> str \<Rightarrow> world \<Rightarrow> world" where
  "logger l m w = w\<lparr>logged := logged w @ [(l, m)]\<rparr>"

definition name_in_use :: "world \<Rightarrow> str \<Rightarrow> bool" where
  "name_in_use w n = (\<exists>c \<in> set (containers w). c_name c = n)"

subsection \<open>The calls of the Docker SDK\<close>

definition images_get :: "str \<Rightarrow> str option \<Rightarrow> world \<Rightarrow> (exn + unit) \<times> world" where
  "images_get img fault w =
     (let w1 = called (ImagesGet img) w in
      case fault of
        Some m \<Rightarrow> (Inl (APIError m), w1)
      | None \<Rightarrow> if img \<in> images w then (Inr (), w1) else (Inl (ImageNotFound img), w1))"

definition containers_get :: "str \<Rightarrow> str option \<Rightarrow> world \<Rightarrow> (exn + container) \<times> world" where
  "containers_get n fault w =
     (let w1 = called (ContainersGet n) w in
      case fault of
        Some m \<Rightarrow> (Inl (APIError m), w1)
      | None \<Rightarrow>
          (case find (\<lambda>c. c_name c = n) (containers w) of
             None \<Rightarrow> (Inl (NotFound n), w1)
           | Some c \<Rightarrow> (Inr c, w1)))"

definition container_remove :: "nat \<Rightarrow> bool \<Rightarrow> str option \<Rightarrow> world \<Rightarrow> (exn + unit) \<times> world" where
  "container_remove cid force fault w =
     (let w1 = called (ContainerRemove cid force) w in
      case fault of
        Some m \<Rightarrow> (Inl (APIError m), w1)
      | None \<Rightarrow>
          if \<exists>c \<in> set (containers w). c_id c = cid
          then (Inr (), w1\<lparr>containers := filter (\<lambda>c. c_id c \<noteq> cid) (containers w)\<rparr>)
          else (Inl (NotFound []), w1))"

text \<open>
  \<open>client.containers.run(..., detach=True)\<close> creates the container and starts it. The
  name must be free. A container that was created and did not start stays in the daemon.
  The call returns at once; the behaviour of the process is recorded in the container,
  and the files it leaves are those of the host afterwards.
\<close>

definition containers_run ::
  "run_request \<Rightarrow> docker_env \<Rightarrow> world \<Rightarrow> (exn + nat) \<times> world" where
  "containers_run req env w =
     (let w1 = called (ContainersRun req) w in
      case create_fault env of
        Some m \<Rightarrow> (Inl (APIError m), w1)
      | None \<Rightarrow>
          if name_in_use w (req_name req) then (Inl (NameConflict (req_name req)), w1)
          else
            (let cid = next_id w;
                 idle = \<lparr>c_id = cid, c_name = req_name req, c_stdout = [], c_stderr = [],
                         c_status = None, c_exited = False\<rparr>
             in case start_fault env of
                  Some m \<Rightarrow>
                    (Inl (APIError m),
                     w1\<lparr>containers := containers w @ [idle], next_id := Suc cid\<rparr>)
                | None \<Rightarrow>
                    (let out = process env req (files w);
                         ran = idle\<lparr>c_stdout := p_stdout out, c_stderr := p_stderr out,
                                     c_status := p_status out, c_exited := p_terminates out\<rparr>
                     in (Inr cid,
                         w1\<lparr>containers := containers w @ [ran], next_id := Suc cid,
                            files := p_files out\<rparr>))))"

text \<open>
  \<open>container.wait()\<close> blocks until the container has exited: on a container whose
  process never ends, it never returns (\<open>None\<close>).
\<close>

definition container_wait ::
  "nat \<Rightarrow> str option \<Rightarrow> world \<Rightarrow> (exn + int option) option \<times> world" where
  "container_wait cid fault w =
     (let w1 = called (ContainerWait cid) w in
      case fault of
        Some m \<Rightarrow> (Some (Inl (APIError m)), w1)
      | None \<Rightarrow>
          (case find (\<lambda>c. c_id c = cid) (containers w) of
             None \<Rightarrow> (Some (Inl (NotFound [])), w1)
           | Some c \<Rightarrow> (if c_exited c then Some (Inr (c_status c)) else None, w1)))"

definition container_logs ::
  "nat \<Rightarrow> bool \<Rightarrow> bool \<Rightarrow> str option \<Rightarrow> world \<Rightarrow> (exn + bytes) \<times> world" where
  "container_logs cid out err fault w =
     (let w1 = called (ContainerLogs cid out err) w in
      case fault of
        Some m \<Rightarrow> (Inl (APIError m), w1)
      | None \<Rightarrow>
          (case find (\<lambda>c. c_id c = cid) (containers w) of
             None \<Rightarrow> (Inl (NotFound []), w1)
           | Some c \<Rightarrow>
               (Inr ((if out then c_stdout c else []) @ (if err then c_stderr c else [])), w1)))"

subsection \<open>run_code_in_sandbox\<close>

definition container_name :: str where
  "container_name = lit ''data-analyst-agent-sandbox''"

definition python_image :: str where
  "python_image = lit ''data-analyst-image''"

text \<open>Line 21: the raw string of the source, with its backslashes (code point 92).\<close>

definition workspace_path :: str where
  "workspace_path =
     lit ''C:'' @ [92] @ lit ''Users'' @ [92] @ lit ''23f20'' @ [92] @ lit ''OneDrive'' @ [92]
     @ lit ''Documents'' @ [92] @ lit ''data analyst agent'' @ [92] @ lit ''workspace''"

text \<open>Lines 34 to 43: the command and the keyword arguments of \<open>client.containers.run\<close>.\<close>

definition sandbox_request :: "str \<Rightarrow> run_request" where
  "sandbox_request code =
     \<lparr>req_image = python_image,
      req_command = [lit ''python'', lit ''-c'', code],
      req_name = container_name,
      req_detach = True,
      req_remove = False,
      req_volumes = [(workspace_path, lit ''/app/workspace'', lit ''rw'')]\<rparr>"

text \<open>
  Lines 27 to 31: the inner \<open>try\<close>. \<open>except docker.errors.NotFound: pass\<close> covers the
  lookup and the removal; any other exception leaves the block (\<open>Some e\<close>).
\<close>

definition pre_cleanup :: "docker_env \<Rightarrow> world \<Rightarrow> exn option \<times> world" where
  "pre_cleanup env w =
     (case containers_get container_name (containers_get_fault env) w of
        (Inl e, w1) \<Rightarrow> (if is_NotFound e then None else Some e, w1)
      | (Inr existing_container, w1) \<Rightarrow>
          (case container_remove (c_id existing_container) True (stale_remove_fault env) w1 of
             (Inl e, w2) \<Rightarrow> (if is_NotFound e then None else Some e, w2)
           | (Inr _, w2) \<Rightarrow> (None, w2)))"

text \<open>Lines 44 to 48: wait, read and decode the two streams, log, build the result.\<close>

definition collect ::
  "nat \<Rightarrow> docker_env \<Rightarrow> world \<Rightarrow> (exn + sandbox_result) option \<times> world" where
  "collect cid env w =
     (case container_wait cid (wait_fault env) w of
        (None, w1) \<Rightarrow> (None, w1)
      | (Some (Inl e), w1) \<Rightarrow> (Some (Inl e), w1)
      | (Some (Inr result), w1) \<Rightarrow>
          (case container_logs cid True False (logs_stdout_fault env) w1 of
             (Inl e, w2) \<Rightarrow> (Some (Inl e), w2)
           | (Inr out_bytes, w2) \<Rightarrow>
               (case decode_utf8 out_bytes of
                  None \<Rightarrow> (Some (Inl UnicodeDecodeError), w2)
                | Some out \<Rightarrow>
                    (case container_logs cid False True (logs_stderr_fault env) w2 of
                       (Inl e, w3) \<Rightarrow> (Some (Inl e), w3)
                     | (Inr err_bytes, w3) \<Rightarrow>
                         (case decode_utf8 err_bytes of
                            None \<Rightarrow> (Some (Inl UnicodeDecodeError), w3)
                          | Some err \<Rightarrow>
                              (Some (Inr \<lparr>stdout = out, stderr = err,
                                 exit_code = (case result of Some c \<Rightarrow> c | None \<Rightarrow> 0)\<rparr>),
                               logger INFO
                                 (lit ''Execution finished. stdout: '' @ strip out
                                  @ lit '', stderr: '' @ strip err) w3))))))"

text \<open>
  Lines 26 to 48: the body of the outer \<open>try\<close>. The second component is the variable
  \<open>container\<close> when the block is left: it is assigned only when
  \<open>client.containers.run\<close> returns.
\<close>

definition sandbox_try ::
  "str \<Rightarrow> docker_env \<Rightarrow> world \<Rightarrow> (exn + sandbox_result) option \<times> nat option \<times> world" where
  "sandbox_try code env w =
     (case images_get python_image (images_get_fault env) w of
        (Inl e, w1) \<Rightarrow> (Some (Inl e), None, w1)
      | (Inr _, w1) \<Rightarrow>
          (case pre_cleanup env w1 of
             (Some e, w2) \<Rightarrow> (Some (Inl e), None, w2)
           | (None, w2) \<Rightarrow>
               (case containers_run (sandbox_request code) env
                       (logger INFO (lit ''Creating and running the container...'') w2) of
                  (Inl e, w3) \<Rightarrow> (Some (Inl e), None, w3)
                | (Inr cid, w3) \<Rightarrow>
                    (case collect cid env w3 of (r, w4) \<Rightarrow> (r, Some cid, w4)))))"

text \<open>Lines 54 to 59: the \<open>finally\<close> block.\<close>

definition sandbox_finally :: "nat option \<Rightarrow> docker_env \<Rightarrow> world \<Rightarrow> world" where
  "sandbox_finally container env w =
     (case container of
        None \<Rightarrow> w
      | Some cid \<Rightarrow>
          (case container_remove cid True (teardown_fault env) w of
             (Inl e, w1) \<Rightarrow>
               logger ERROR (lit ''Error during container cleanup: '' @ str_exn env e) w1
           | (Inr _, w1) \<Rightarrow> w1))"

text \<open>
  Lines 9 to 59. \<open>Some (Inl e)\<close>: the exception \<open>e\<close> leaves the function;
  \<open>Some (Inr r)\<close>: it returns the dictionary \<open>r\<close>; \<open>None\<close>: it never returns, and
  the state is the one in which it blocks. Line 14, \<open>docker.from_env()\<close>, stands before
  the \<open>try\<close>.
\<close>

definition run_code_in_sandbox ::
  "str \<Rightarrow> docker_env \<Rightarrow> world \<Rightarrow> (exn + sandbox_result) option \<times> world" where
  "run_code_in_sandbox code env w =
     (case from_env_fault env of
        Some m \<Rightarrow> (Some (Inl (DockerException m)), w)
      | None \<Rightarrow>
          (case sandbox_try code env w of
             (None, container, w1) \<Rightarrow> (None, w1)
           | (Some (Inr r), container, w1) \<Rightarrow> (Some (Inr r), sandbox_finally container env w1)
           | (Some (Inl e), container, w1) \<Rightarrow>
               (Some (Inr \<lparr>stdout = [], stderr = str_exn env e, exit_code = - 1\<rparr>),
                sandbox_finally container env
                  (logger ERROR
                     (lit ''An unexpected error occurred in code_executor: '' @ str_exn env e)
                     w1))))"

section \<open>The orchestrator (main.py)\<close>

text \<open>
  The environment of one request: the generator (\<open>model.generate_content(prompt).text\<close>,
  which may raise), the answers of the Docker environment during the sandbox call of each
  stage, \<open>json.loads\<close>, the exception that \<open>JSONResponse\<close> raises when it renders a
  parsed value in its constructor (\<open>ValueError\<close> for \<open>NaN\<close> or \<open>Infinity\<close>, since it
  renders with \<open>allow_nan=False\<close>; \<open>None\<close>: it renders), the exception that
  \<open>os.remove\<close> raises on a path (a directory, a path that the process may not
  remove; \<open>None\<close>: it removes), and the separator that \<open>os.path.join\<close> puts between
  two components on the host. The records that main.py writes to its logger have no
  effect on the control flow and are left out.
\<close>

record 'j env =
  generate_content :: "str \<Rightarrow> exn + str"
  docker :: "nat \<Rightarrow> docker_env"
  json_loads :: "str \<Rightarrow> exn + 'j"
  json_render_fault :: "'j \<Rightarrow> exn option"
  os_remove_fault :: "str \<Rightarrow> exn option"
  path_sep :: str

text \<open>\<open>JSONResponse(status_code=..., content=...)\<close>; the status is 200 when none is given.\<close>

datatype 'j content = ErrorObject str | Payload 'j

record 'j response =
  status_code :: nat
  content :: "'j content"

definition error_response :: "str \<Rightarrow> 'j response" where
  "error_response msg = \<lparr>status_code = 500, content = ErrorObject msg\<rparr>"

text \<open>Lines 23 to 37.\<close>

definition create_code_generation_prompt :: "str \<Rightarrow> str \<Rightarrow> str" where
  "create_code_generation_prompt task_description context =
     nl
     @ lit ''You are an expert Python data scientist. Your task is to write a Python script to perform a specific task.''
     @ nl
     @ lit ''All file operations must use the '/app/workspace/' directory.'' @ nl
     @ nl
     @ lit ''Context from previous steps:'' @ nl
     @ context @ nl
     @ nl
     @ lit ''Your current task:'' @ nl
     @ [39] @ task_description @ [39] @ nl
     @ nl
     @ lit ''Write only the Python code for this task. Do not use markdown.'' @ nl
     @ lit ''Your script's final output to stdout should be a single-line JSON string describing the result.''
     @ nl"

definition url :: str where
  "url = lit ''https://en.wikipedia.org/wiki/List_of_highest-grossing_films''"

definition workspace_dir :: str where
  "workspace_dir = lit ''workspace''"

definition os_path_join :: "str \<Rightarrow> str \<Rightarrow> str \<Rightarrow> str" where
  "os_path_join sep a b = a @ sep @ b"

definition sampler_output_file :: "str \<Rightarrow> str" where
  "sampler_output_file sep = os_path_join sep workspace_dir (lit ''scraped_table.html'')"

definition final_csv_file :: "str \<Rightarrow> str" where
  "final_csv_file sep = os_path_join sep workspace_dir (lit ''films.csv'')"

text \<open>Lines 59 to 63.\<close>

definition sampler_task :: str where
  "sampler_task =
     lit ''Download the page at '' @ [39] @ url @ [39]
     @ lit '' using requests with a 'User-Agent' header. ''
     @ lit ''Find the main data table (the one with 'Rank' and 'Title' in its headers). ''
     @ lit ''Save the full outer HTML of this table to '/app/workspace/scraped_table.html'.''"

text \<open>Lines 76 to 82.\<close>

definition scraper_task :: str where
  "scraper_task =
     lit ''Read the HTML from '/app/workspace/scraped_table.html'. Parse it to a pandas DataFrame. ''
     @ lit ''CRITICAL: Before saving, you must aggressively clean the 'Worldwide gross' column. ''
     @ lit ''First, remove specific leading footnote characters that are sometimes attached to the numbers (e.g., 'T', 'F', 'SM', 'F8'). ''
     @ lit ''After removing those, then remove all other non-numeric characters like '$', ',', '#', '[', ']', and extra spaces. ''
     @ lit ''Finally, save the fully cleaned DataFrame (Rank, Peak, Title, Worldwide gross, Year) to a CSV file at '/app/workspace/films.csv'.''"

text \<open>Lines 96 to 104.\<close>

definition analysis_task :: "str \<Rightarrow> str" where
  "analysis_task question_content =
     lit ''The film data is at '/app/workspace/films.csv'. Load it into a pandas DataFrame. ''
     @ lit ''The columns should already be clean, but as a safeguard, ensure 'Worldwide gross', 'Year', and 'Peak' are numeric types (`pd.to_numeric` with `errors='coerce'`). Drop any rows with NaN values. ''
     @ lit ''The column with the film names is 'Title'. ''
     @ lit ''Now, write a single script to produce the final answers for the user's request.''
     @ nl @ nl
     @ lit ''User Request:'' @ nl @ lit ''---'' @ nl @ question_content @ nl @ lit ''---'' @ nl
     @ lit ''The script's final output to stdout MUST be a single line containing a valid JSON array with exactly 4 elements matching the user's questions. ''
     @ lit ''The 4th element must be a base64-encoded PNG image as a data URI string.''"

text \<open>
  Lines 66, 87 and 107:
  \<open>response.text.replace("```python", "").replace("```", "").strip()\<close>.
\<close>

definition fence :: str where
  "fence = lit ''```''"

definition fence_python :: str where
  "fence_python = lit ''```python''"

definition strip_fences :: "str \<Rightarrow> str" where
  "strip_fences response_text = strip (py_replace fence [] (py_replace fence_python [] response_text))"

text \<open>
  Lines 64 to 67, 85 to 88 and 105 to 108: build the prompt, ask the generator, strip the
  fences, run the code in the sandbox of stage \<open>k\<close>.
\<close>

definition run_generated ::
  "'j env \<Rightarrow> nat \<Rightarrow> str \<Rightarrow> world \<Rightarrow> (exn + sandbox_result) option \<times> world" where
  "run_generated env k task w =
     (let prompt = create_code_generation_prompt task [];
          w1 = w\<lparr>prompts := prompts w @ [prompt]\<rparr>
      in case generate_content env prompt of
           Inl e \<Rightarrow> (Some (Inl e), w1)
         | Inr response_text \<Rightarrow> run_code_in_sandbox (strip_fences response_text) (docker env k) w1)"

definition stage1_error :: str where
  "stage1_error = lit ''Stage 1 (sampler) failed to create the output file.''"

definition stage2_error :: str where
  "stage2_error = lit ''Stage 2 (scraper) failed to create the final CSV file.''"

definition stage3_error :: str where
  "stage3_error = lit ''Stage 3 (analysis) failed.''"

definition parse_error :: str where
  "parse_error = lit ''Failed to parse the final JSON array from the analysis script.''"

text \<open>
  Lines 116 to 118, the body of the last \<open>try\<close>: \<open>json.loads\<close> on the standard
  output of stage 3, then the construction of the response, which renders the value.
\<close>

definition final_answer :: "'j env \<Rightarrow> str \<Rightarrow> exn + 'j response" where
  "final_answer env out =
     (case json_loads env out of
        Inl e \<Rightarrow> Inl e
      | Inr v \<Rightarrow>
          (case json_render_fault env v of
             Some e \<Rightarrow> Inl e
           | None \<Rightarrow> Inr \<lparr>status_code = 200, content = Payload v\<rparr>))"

text \<open>
  Lines 110 to 121: the check of stage 3 and the final answer.
  \<open>except (json.JSONDecodeError, IndexError)\<close> catches these two classes only.
\<close>

definition analysis_check ::
  "'j env \<Rightarrow> sandbox_result \<Rightarrow> world \<Rightarrow> (exn + 'j response) option \<times> world" where
  "analysis_check env analysis_result w =
     (if stderr analysis_result \<noteq> [] then (Some (Inr (error_response stage3_error)), w)
      else
        (case final_answer env (stdout analysis_result) of
           Inr response \<Rightarrow> (Some (Inr response), w)
         | Inl (JSONDecodeError m) \<Rightarrow> (Some (Inr (error_response parse_error)), w)
         | Inl (IndexError m) \<Rightarrow> (Some (Inr (error_response parse_error)), w)
         | Inl e \<Rightarrow> (Some (Inl e), w)))"

text \<open>Lines 94 to 108: stage 3.\<close>

definition analysis_stage ::
  "'j env \<Rightarrow> str \<Rightarrow> world \<Rightarrow> (exn + 'j response) option \<times> world" where
  "analysis_stage env question_content w =
     (case run_generated env 3 (analysis_task question_content) w of
        (None, w1) \<Rightarrow> (None, w1)
      | (Some (Inl e), w1) \<Rightarrow> (Some (Inl e), w1)
      | (Some (Inr analysis_result), w1) \<Rightarrow> analysis_check env analysis_result w1)"

text \<open>Lines 90 to 92: the check of stage 2.\<close>

definition scraper_check ::
  "'j env \<Rightarrow> str \<Rightarrow> sandbox_result \<Rightarrow> world \<Rightarrow> (exn + 'j response) option \<times> world" where
  "scraper_check env question_content scraper_result w =
     (if stderr scraper_result \<noteq> [] \<or> final_csv_file (path_sep env) \<notin> files w
      then (Some (Inr (error_response stage2_error)), w)
      else analysis_stage env question_content w)"

text \<open>Lines 72 to 88: stage 2.\<close>

definition scraper_stage ::
  "'j env \<Rightarrow> str \<Rightarrow> world \<Rightarrow> (exn + 'j response) option \<times> world" where
  "scraper_stage env question_content w =
     (case run_generated env 2 scraper_task w of
        (None, w1) \<Rightarrow> (None, w1)
      | (Some (Inl e), w1) \<Rightarrow> (Some (Inl e), w1)
      | (Some (Inr scraper_result), w1) \<Rightarrow> scraper_check env question_content scraper_result w1)"

text \<open>Lines 69 and 70: the check of stage 1.\<close>

definition sampler_check ::
  "'j env \<Rightarrow> str \<Rightarrow> sandbox_result \<Rightarrow> world \<Rightarrow> (exn + 'j response) option \<times> world" where
  "sampler_check env question_content sampler_result w =
     (if stderr sampler_result \<noteq> [] \<or> sampler_output_file (path_sep env) \<notin> files w
      then (Some (Inr (error_response stage1_error)), w)
      else scraper_stage env question_content w)"

text \<open>
  \<open>os.remove(path)\<close>: it raises when the path does not exist, and when the
  environment refuses the removal.
\<close>

definition os_remove :: "'j env \<Rightarrow> str \<Rightarrow> world \<Rightarrow> exn option \<times> world" where
  "os_remove env path w =
     (if path \<notin> files w then (Some (OSError path), w)
      else
        (case os_remove_fault env path of
           Some e \<Rightarrow> (Some e, w)
         | None \<Rightarrow> (None, w\<lparr>files := files w - {path}\<rparr>)))"

text \<open>
  Lines 49 to 53: each of the two files is removed when it exists. \<open>Some e\<close>: the
  exception \<open>e\<close> of \<open>os.remove\<close> leaves the block.
\<close>

definition clean_workspace :: "'j env \<Rightarrow> world \<Rightarrow> exn option \<times> world" where
  "clean_workspace env w =
     (case (if sampler_output_file (path_sep env) \<in> files w
            then os_remove env (sampler_output_file (path_sep env)) w else (None, w)) of
        (Some e, w1) \<Rightarrow> (Some e, w1)
      | (None, w1) \<Rightarrow>
          (if final_csv_file (path_sep env) \<in> files w1
           then os_remove env (final_csv_file (path_sep env)) w1 else (None, w1)))"

text \<open>
  Lines 41 to 121. The argument is the body of the uploaded file. \<open>Some (Inl e)\<close>: the
  exception \<open>e\<close> leaves the handler; \<open>Some (Inr r)\<close>: it returns the response \<open>r\<close>;
  \<open>None\<close>: it never returns.
\<close>

definition create_analysis ::
  "'j env \<Rightarrow> bytes \<Rightarrow> world \<Rightarrow> (exn + 'j response) option \<times> world" where
  "create_analysis env question w =
     (case decode_utf8 question of
        None \<Rightarrow> (Some (Inl UnicodeDecodeError), w)
      | Some question_content \<Rightarrow>
          (case clean_workspace env w of
             (Some e, w0) \<Rightarrow> (Some (Inl e), w0)
           | (None, w0) \<Rightarrow>
               (case run_generated env 1 sampler_task w0 of
                  (None, w1) \<Rightarrow> (None, w1)
                | (Some (Inl e), w1) \<Rightarrow> (Some (Inl e), w1)
                | (Some (Inr sampler_result), w1) \<Rightarrow>
                    sampler_check env question_content sampler_result w1)))"

section \<open>Notions used in the statements\<close>

text \<open>
  The invariant of the daemon: at most one container under a name, and every container
  was numbered before \<open>next_id\<close>.
\<close>

definition wf_world :: "world \<Rightarrow> bool" where
  "wf_world w =
     (distinct (map c_name (containers w)) \<and> (\<forall>c \<in> set (containers w). c_id c < next_id w))"

text \<open>The calls that the daemon received between two states.\<close>

definition new_calls :: "world \<Rightarrow> world \<Rightarrow> call list" where
  "new_calls w w' = drop (length (calls w)) (calls w')"

text \<open>
  A teardown is a forced removal of the container that the call of
  \<open>run_code_in_sandbox\<close> creates: the daemon gives it the number \<open>next_id\<close> of the
  state in which the call begins.
\<close>

fun is_teardown :: "nat \<Rightarrow> call \<Rightarrow> bool" where
  "is_teardown n (ContainerRemove i force) = (force \<and> i = n)"
| "is_teardown n _ = False"

definition teardown_attempts :: "str \<Rightarrow> docker_env \<Rightarrow> world \<Rightarrow> nat" where
  "teardown_attempts code env w =
     length (filter (is_teardown (next_id w))
       (new_calls w (snd (run_code_in_sandbox code env w))))"

text \<open>\<open>client.containers.run\<close> returned: the variable \<open>container\<close> is set.\<close>

definition provisioned :: "str \<Rightarrow> docker_env \<Rightarrow> world \<Rightarrow> bool" where
  "provisioned code env w = (fst (snd (sandbox_try code env w)) \<noteq> None)"

text \<open>The daemon created a container during the call, started or not.\<close>

definition created :: "str \<Rightarrow> docker_env \<Rightarrow> world \<Rightarrow> bool" where
  "created code env w = (next_id (snd (run_code_in_sandbox code env w)) \<noteq> next_id w)"

text \<open>The call comes to an end, by a result or by an exception.\<close>

definition ends :: "str \<Rightarrow> docker_env \<Rightarrow> world \<Rightarrow> bool" where
  "ends code env w = (fst (run_code_in_sandbox code env w) \<noteq> None)"

text \<open>The exception that the handler of line 50 catches, if any.\<close>

definition caught :: "str \<Rightarrow> docker_env \<Rightarrow> world \<Rightarrow> exn option" where
  "caught code env w =
     (case fst (sandbox_try code env w) of Some (Inl e) \<Rightarrow> Some e | _ \<Rightarrow> None)"

text \<open>The requests that \<open>client.containers.run\<close> received during one call.\<close>

fun run_request_of :: "call \<Rightarrow> run_request list" where
  "run_request_of (ContainersRun r) = [r]"
| "run_request_of _ = []"

definition run_requests :: "str \<Rightarrow> docker_env \<Rightarrow> world \<Rightarrow> run_request list" where
  "run_requests code env w =
     concat (map run_request_of (new_calls w (snd (run_code_in_sandbox code env w))))"

text \<open>The call reaches \<open>client.containers.run\<close>: lines 14 to 31 raised nothing.\<close>

definition reaches_run :: "docker_env \<Rightarrow> world \<Rightarrow> bool" where
  "reaches_run env w =
     (from_env_fault env = None \<and>
      (case images_get python_image (images_get_fault env) w of
         (Inl e, w1) \<Rightarrow> False
       | (Inr _, w1) \<Rightarrow> fst (pre_cleanup env w1) = None))"

text \<open>The environment raises nothing between line 14 and line 46.\<close>

definition no_faults :: "docker_env \<Rightarrow> bool" where
  "no_faults env =
     (from_env_fault env = None \<and> images_get_fault env = None \<and> containers_get_fault env = None
      \<and> stale_remove_fault env = None \<and> create_fault env = None \<and> start_fault env = None
      \<and> wait_fault env = None \<and> logs_stdout_fault env = None \<and> logs_stderr_fault env = None)"

text \<open>The two artifacts that lines 49 to 53 delete.\<close>

definition artifacts :: "'j env \<Rightarrow> str set" where
  "artifacts env = {sampler_output_file (path_sep env), final_csv_file (path_sep env)}"

text \<open>
  Two states that a run cannot tell apart once the two artifacts are deleted: the same
  images, the same files, the reserved name in use in both or in none, and the invariant
  of the daemon in both.
\<close>

definition same_view :: "world \<Rightarrow> world \<Rightarrow> bool" where
  "same_view w w' =
     (images w = images w' \<and> files w = files w'
      \<and> name_in_use w container_name = name_in_use w' container_name
      \<and> wf_world w \<and> wf_world w')"

text \<open>
  A container in each of two states, which no call on it can tell apart: both stand
  under the reserved name, with the same output, the same status code, and exited in
  both states or in none.
\<close>

definition same_container :: "nat \<times> world \<Rightarrow> nat \<times> world \<Rightarrow> bool" where
  "same_container a b =
     (case (a, b) of
        ((i, w), (i', w')) \<Rightarrow>
          images w = images w' \<and> files w = files w' \<and> wf_world w \<and> wf_world w'
          \<and> (case (find (\<lambda>c. c_id c = i) (containers w),
                     find (\<lambda>c. c_id c = i') (containers w')) of
                (Some c, Some c') \<Rightarrow>
                  c_name c = container_name \<and> c_name c' = container_name
                  \<and> c_stdout c = c_stdout c' \<and> c_stderr c = c_stderr c'
                  \<and> c_status c = c_status c' \<and> c_exited c = c_exited c'
              | _ \<Rightarrow> False))"

text \<open>
  The variable \<open>container\<close> and the state at the end of the \<open>try\<close> block, in two
  runs that cannot be told apart: unset in both, or set in both.
\<close>

definition same_handle :: "nat option \<times> world \<Rightarrow> nat option \<times> world \<Rightarrow> bool" where
  "same_handle a b =
     (case (a, b) of
        ((None, w), (None, w')) \<Rightarrow> same_view w w'
      | ((Some i, w), (Some i', w')) \<Rightarrow> same_container (i, w) (i', w')
      | _ \<Rightarrow> False)"

text \<open>The length of the run of backticks (code point 96) at the head of a text.\<close>

definition ticks :: "str \<Rightarrow> nat" where
  "ticks s = length (takeWhile (\<lambda>c. c = 96) s)"

subsection \<open>Concrete inputs\<close>

text \<open>
  A rendering \<open>str(e)\<close> of the exceptions; the text for \<open>UnicodeDecodeError\<close> is the
  one of Python for the byte 0xFF at position 0.
\<close>

definition render :: "exn \<Rightarrow> str" where
  "render e =
     (case e of
        DockerException m \<Rightarrow> m
      | ImageNotFound m \<Rightarrow> lit ''No such image: '' @ m
      | NotFound m \<Rightarrow> lit ''Not found: '' @ m
      | NameConflict m \<Rightarrow> lit ''Conflict: '' @ m
      | APIError m \<Rightarrow> m
      | UnicodeDecodeError \<Rightarrow>
          [39] @ lit ''utf-8' codec can't decode byte 0xff in position 0: invalid start byte''
      | JSONDecodeError m \<Rightarrow> m
      | IndexError m \<Rightarrow> m
      | ValueError m \<Rightarrow> m
      | OSError m \<Rightarrow> m
      | OtherException m \<Rightarrow> m)"

text \<open>A host with the image and no container, and one without the image.\<close>

definition world0 :: world where
  "world0 =
     \<lparr>images = {python_image}, containers = [], next_id = 0, files = {}, calls = [],
      logged = [], prompts = []\<rparr>"

definition world_no_image :: world where
  "world_no_image = world0\<lparr>images := {}\<rparr>"

text \<open>
  A process that prints \<open>hi\<close> and a newline and ends with status 0; no call fails.
\<close>

definition proc_hi :: "run_request \<Rightarrow> str set \<Rightarrow> proc_outcome" where
  "proc_hi req fs =
     \<lparr>p_terminates = True, p_stdout = [104, 105, 10], p_stderr = [], p_status = Some 0,
      p_files = fs\<rparr>"

definition env_ok :: docker_env where
  "env_ok =
     \<lparr>from_env_fault = None, images_get_fault = None, containers_get_fault = None,
      stale_remove_fault = None, create_fault = None, start_fault = None, wait_fault = None,
      logs_stdout_fault = None, logs_stderr_fault = None, teardown_fault = None,
      process = proc_hi, str_exn = render\<rparr>"

text \<open>The code \<open>print('hi')\<close>.\<close>

definition code_hi :: str where
  "code_hi = lit ''print('hi')''"

text \<open>
  A process that writes the single byte 0xFF to its standard output, nothing to its
  standard error, and ends with status 0, as
  \<open>import sys; sys.stdout.buffer.write(b'\xff')\<close> does.
\<close>

definition code_ff :: str where
  "code_ff = lit ''import sys; sys.stdout.buffer.write(b'' @ [39, 92] @ lit ''xff'' @ [39] @ lit '')''"

definition proc_ff :: "run_request \<Rightarrow> str set \<Rightarrow> proc_outcome" where
  "proc_ff req fs =
     \<lparr>p_terminates = True, p_stdout = [255], p_stderr = [], p_status = Some 0, p_files = fs\<rparr>"

definition env_ff :: docker_env where
  "env_ff = env_ok\<lparr>process := proc_ff\<rparr>"

text \<open>A process that never ends, as \<open>while True: pass\<close>.\<close>

definition code_loop :: str where
  "code_loop = lit ''while True: pass''"

definition proc_loop :: "run_request \<Rightarrow> str set \<Rightarrow> proc_outcome" where
  "proc_loop req fs =
     \<lparr>p_terminates = False, p_stdout = [], p_stderr = [], p_status = None, p_files = fs\<rparr>"

definition env_loop :: docker_env where
  "env_loop = env_ok\<lparr>process := proc_loop\<rparr>"

text \<open>
  The values of a toy JSON parser and its renderer. On the texts used below they answer
  as \<open>json.loads\<close> and \<open>JSONResponse\<close> do: a digit and a newline is an integer,
  \<open>NaN\<close> and a newline is the float \<open>nan\<close>, which \<open>JSONResponse\<close> refuses to render;
  \<open>hi\<close> is no JSON.
\<close>

datatype pyvalue = PyInt int | PyNaN

definition json_toy :: "str \<Rightarrow> exn + pyvalue" where
  "json_toy s =
     (if s = lit ''NaN'' @ nl then Inr PyNaN
      else
        (case s of
           [d, n] \<Rightarrow>
             if 48 \<le> d \<and> d \<le> 57 \<and> n = 10 then Inr (PyInt (int d - 48))
             else Inl (JSONDecodeError s)
         | _ \<Rightarrow> Inl (JSONDecodeError s)))"

definition render_toy :: "pyvalue \<Rightarrow> exn option" where
  "render_toy v =
     (case v of
        PyInt i \<Rightarrow> None
      | PyNaN \<Rightarrow> Some (ValueError (lit ''Out of range float values are not JSON compliant'')))"

text \<open>
  A script for every stage, whose behaviour is a function of the files it finds: it
  writes the first artifact when it is absent, else the second when it is absent, else it
  runs its last line. \<open>script_process out st\<close> is the behaviour of a script whose last
  line prints \<open>out\<close>, the script ending with the status \<open>st\<close> at every stage.
\<close>

definition script :: "str \<Rightarrow> str" where
  "script last_line =
     lit ''import os, sys'' @ nl
     @ lit ''w='/app/workspace/'; a=w+'scraped_table.html'; b=w+'films.csv'; s=w+'seen'; i=os.path.exists''
     @ nl
     @ lit ''if not i(a): open(a,'w').close()'' @ nl
     @ lit ''elif not i(b): open(b,'w').close()'' @ nl
     @ lit ''else: '' @ last_line"

definition script_process :: "bytes \<Rightarrow> int \<Rightarrow> run_request \<Rightarrow> str set \<Rightarrow> proc_outcome" where
  "script_process out st req fs =
     (if sampler_output_file (lit ''/'') \<notin> fs
      then \<lparr>p_terminates = True, p_stdout = [], p_stderr = [], p_status = Some st,
            p_files = insert (sampler_output_file (lit ''/'')) fs\<rparr>
      else if final_csv_file (lit ''/'') \<notin> fs
      then \<lparr>p_terminates = True, p_stdout = [], p_stderr = [], p_status = Some st,
            p_files = insert (final_csv_file (lit ''/'')) fs\<rparr>
      else \<lparr>p_terminates = True, p_stdout = out, p_stderr = [], p_status = Some st,
            p_files = fs\<rparr>)"

text \<open>
  The environment of a request: the generator answers every prompt with the same code,
  the Docker environment of stage \<open>k\<close> is \<open>d k\<close>, and \<open>os.remove\<close> does not fail.
\<close>

definition pipeline_env :: "str \<Rightarrow> (nat \<Rightarrow> docker_env) \<Rightarrow> pyvalue env" where
  "pipeline_env code d =
     \<lparr>generate_content = (\<lambda>prompt. Inr code), docker = d, json_loads = json_toy,
      json_render_fault = render_toy, os_remove_fault = (\<lambda>path. None), path_sep = lit ''/''\<rparr>"

text \<open>The last line prints 0 and the script ends with status 0: the answer is 0.\<close>

definition env_zero :: "pyvalue env" where
  "env_zero =
     pipeline_env (script (lit ''print(0)''))
       (\<lambda>k. env_ok\<lparr>process := script_process [48, 10] 0\<rparr>)"

text \<open>The same script ending with \<open>sys.exit(1)\<close> at every stage.\<close>

definition env_exit1 :: "pyvalue env" where
  "env_exit1 =
     pipeline_env (script (lit ''print(0)'' @ nl @ lit ''sys.exit(1)''))
       (\<lambda>k. env_ok\<lparr>process := script_process [48, 10] 1\<rparr>)"

text \<open>The last line prints \<open>NaN\<close>, with the status 0 and with the status 1.\<close>

definition env_nan :: "pyvalue env" where
  "env_nan =
     pipeline_env (script (lit ''print('NaN')''))
       (\<lambda>k. env_ok\<lparr>process := script_process [78, 97, 78, 10] 0\<rparr>)"

definition env_nan_exit1 :: "pyvalue env" where
  "env_nan_exit1 =
     pipeline_env (script (lit ''print('NaN')'' @ nl @ lit ''sys.exit(1)''))
       (\<lambda>k. env_ok\<lparr>process := script_process [78, 97, 78, 10] 1\<rparr>)"

text \<open>
  A script that does the work of every stage, ends with status 0 at every stage, and
  writes a warning to its standard error at stage \<open>n\<close>.
\<close>

definition script_warn :: "nat \<Rightarrow> str" where
  "script_warn n =
     lit ''import os, sys'' @ nl
     @ lit ''w='/app/workspace/'; a=w+'scraped_table.html'; b=w+'films.csv'; i=os.path.exists''
     @ nl
     @ lit ''k = 1 if not i(a) else 2 if not i(b) else 3'' @ nl
     @ lit ''if k == '' @ [48 + n] @ lit '': sys.stderr.write('w')'' @ nl
     @ lit ''if k == 1: open(a,'w').close()'' @ nl
     @ lit ''elif k == 2: open(b,'w').close()'' @ nl
     @ lit ''else: print(0)''"

definition proc_warn :: "nat \<Rightarrow> run_request \<Rightarrow> str set \<Rightarrow> proc_outcome" where
  "proc_warn n req fs =
     (let k = (if sampler_output_file (lit ''/'') \<notin> fs then 1
               else if final_csv_file (lit ''/'') \<notin> fs then 2 else 3 :: nat)
      in (script_process [48, 10] 0 req fs)\<lparr>p_stderr := (if k = n then [119] else [])\<rparr>)"

definition env_warn :: "nat \<Rightarrow> pyvalue env" where
  "env_warn n = pipeline_env (script_warn n) (\<lambda>k. env_ok\<lparr>process := proc_warn n\<rparr>)"

text \<open>The process prints \<open>hi\<close>, which is no JSON, and leaves no file.\<close>

definition env_hi :: "pyvalue env" where
  "env_hi = pipeline_env code_hi (\<lambda>k. env_ok)"

text \<open>
  The last line prints 1 or 0 according to whether a file of the script's own,
  \<open>workspace/seen\<close>, exists, and creates that file.
\<close>

definition seen_file :: str where
  "seen_file = lit ''workspace/seen''"

definition proc_seen :: "run_request \<Rightarrow> str set \<Rightarrow> proc_outcome" where
  "proc_seen req fs =
     (if sampler_output_file (lit ''/'') \<in> fs \<and> final_csv_file (lit ''/'') \<in> fs
      then \<lparr>p_terminates = True, p_stdout = (if seen_file \<in> fs then [49, 10] else [48, 10]),
            p_stderr = [], p_status = Some 0, p_files = insert seen_file fs\<rparr>
      else script_process [] 0 req fs)"

definition env_seen :: "pyvalue env" where
  "env_seen =
     pipeline_env (script (lit ''print(1 if i(s) else 0); open(s,'w').close()''))
       (\<lambda>k. env_ok\<lparr>process := proc_seen\<rparr>)"

text \<open>
  The script that prints 0, in an environment where the teardown of stage 3 fails and
  the removal of a stale container fails.
\<close>

definition env_stale :: "pyvalue env" where
  "env_stale =
     pipeline_env (script (lit ''print(0)''))
       (\<lambda>k. env_ok\<lparr>process := script_process [48, 10] 0,
                   stale_remove_fault := Some (lit ''removal in progress''),
                   teardown_fault := (if k = 3 then Some (lit ''removal in progress'') else None)\<rparr>)"

text \<open>The script that prints 0, on a host where the artifacts cannot be removed.\<close>

definition env_locked :: "pyvalue env" where
  "env_locked = env_zero\<lparr>os_remove_fault := (\<lambda>path. Some (OSError path))\<rparr>"

text \<open>The question \<open>Q?\<close> as the bytes of the upload.\<close>

definition question0 :: bytes where
  "question0 = [81, 63]"

text \<open>A host on which the two artifacts exist.\<close>

definition world_ready :: world where
  "world_ready = world0\<lparr>files := {sampler_output_file (lit ''/''), final_csv_file (lit ''/'')}\<rparr>"

section \<open>Properties of the sandbox runner\<close>

subsection \<open>Evaluation\<close>

lemmas daemon_defs = images_get_def containers_get_def container_remove_def containers_run_def
  container_wait_def container_logs_def called_def logger_def

lemmas sandbox_defs = run_code_in_sandbox_def sandbox_try_def sandbox_finally_def pre_cleanup_def
  collect_def sandbox_request_def

lemmas concrete_defs = env_ok_def world0_def world_no_image_def proc_hi_def name_in_use_def
  decode_utf8_def Let_def

subsection \<open>The teardown fault is read by the finally block only\<close>

lemma pre_cleanup_teardown_indep:
  "pre_cleanup (env\<lparr>teardown_fault := f\<rparr>) w = pre_cleanup env w"
  by (simp add: pre_cleanup_def cong: prod.case_cong sum.case_cong option.case_cong)

lemma containers_run_teardown_indep:
  "containers_run req (env\<lparr>teardown_fault := f\<rparr>) w = containers_run req env w"
  by (simp add: containers_run_def Let_def cong: prod.case_cong sum.case_cong option.case_cong if_cong)

lemma collect_teardown_indep:
  "collect cid (env\<lparr>teardown_fault := f\<rparr>) w = collect cid env w"
  by (simp add: collect_def cong: prod.case_cong sum.case_cong option.case_cong)

lemma sandbox_try_teardown_indep:
  "sandbox_try code (env\<lparr>teardown_fault := f\<rparr>) w = sandbox_try code env w"
  by (simp add: sandbox_try_def pre_cleanup_teardown_indep containers_run_teardown_indep collect_teardown_indep cong: prod.case_cong sum.case_cong option.case_cong)

subsection \<open>The invariant of the daemon and the name conflict\<close>

lemma find_SomeD: "find P xs = Some x \<Longrightarrow> x \<in> set xs \<and> P x"
  by (induction xs) (auto split: if_splits)

lemma remove_found_frees:
  "distinct (map c_name cs) \<Longrightarrow> c \<in> set cs \<Longrightarrow> c' \<in> set cs \<Longrightarrow> c_name c' = c_name c \<Longrightarrow> c_id c' = c_id c"
  by (auto simp: distinct_map dest: inj_onD)

lemma name_in_use_logger [simp]: "name_in_use (logger l m w) n = name_in_use w n"
  by (simp add: name_in_use_def logger_def)

lemma wf_world_logger [simp]: "wf_world (logger l m w) = wf_world w"
  by (simp add: wf_world_def logger_def)

lemma wf_world_called [simp]: "wf_world (called c w) = wf_world w"
  by (simp add: wf_world_def called_def)

lemma images_get_wf: "images_get img f w = (r, w') \<Longrightarrow> wf_world w \<Longrightarrow> wf_world w'"
  by (auto simp: images_get_def Let_def split: option.splits if_splits)

lemma images_get_no_conflict: "images_get img f w = (r, w') \<Longrightarrow> r \<noteq> Inl (NameConflict n)"
  by (auto simp: images_get_def Let_def split: option.splits if_splits)

lemma container_remove_wf:
  "container_remove cid force f w = (r, w') \<Longrightarrow> wf_world w \<Longrightarrow> wf_world w'"
  by (auto simp: container_remove_def called_def Let_def wf_world_def distinct_map_filter
      split: option.splits if_splits)

lemma pre_cleanup_wf:
  "pre_cleanup env w = (r, w') \<Longrightarrow> wf_world w \<Longrightarrow> wf_world w'"
  by (auto simp: pre_cleanup_def containers_get_def Let_def
      split: option.splits sum.splits prod.splits if_splits dest: container_remove_wf)

lemma pre_cleanup_no_conflict: "pre_cleanup env w = (r, w') \<Longrightarrow> r \<noteq> Some (NameConflict n)"
  by (auto simp: pre_cleanup_def daemon_defs Let_def
      split: option.splits sum.splits prod.splits if_splits)

lemma pre_cleanup_free:
  assumes "pre_cleanup env w = (None, w')" and "wf_world w"
  shows "\<not> name_in_use w' container_name"
proof (cases "find (\<lambda>c. c_name c = container_name) (containers w)")
  case None
  then have "\<not> name_in_use w container_name"
    by (auto simp: find_None_iff name_in_use_def)
  moreover from assms(1) None have "containers w' = containers w"
    by (auto simp: pre_cleanup_def containers_get_def called_def Let_def
        split: option.splits if_splits)
  ultimately show ?thesis by (simp add: name_in_use_def)
next
  case (Some c)
  then have c: "c \<in> set (containers w)" "c_name c = container_name"
    by (auto dest: find_SomeD)
  from assms(1) Some c have "containers w' = filter (\<lambda>x. c_id x \<noteq> c_id c) (containers w)"
    by (auto simp: pre_cleanup_def containers_get_def container_remove_def called_def Let_def
        split: option.splits if_splits)
  moreover have "distinct (map c_name (containers w))"
    using assms(2) by (simp add: wf_world_def)
  ultimately show ?thesis
    using c by (auto simp: name_in_use_def dest: remove_found_frees)
qed

lemma containers_run_no_conflict:
  "containers_run req env w = (r, w') \<Longrightarrow> \<not> name_in_use w (req_name req) \<Longrightarrow>
   r \<noteq> Inl (NameConflict n)"
  by (auto simp: containers_run_def Let_def split: option.splits)

lemma containers_run_conflict:
  "create_fault env = None \<Longrightarrow> name_in_use w (req_name req) \<Longrightarrow>
   fst (containers_run req env w) = Inl (NameConflict (req_name req))"
  by (simp add: containers_run_def Let_def)

lemma containers_run_wf:
  "containers_run req env w = (r, w') \<Longrightarrow> wf_world w \<Longrightarrow> wf_world w'"
  by (fastforce simp: containers_run_def Let_def wf_world_def called_def name_in_use_def less_Suc_eq
      split: option.splits if_splits)

lemma containers_run_id:
  "containers_run req env w = (Inr cid, w') \<Longrightarrow> cid = next_id w"
  by (auto simp: containers_run_def Let_def split: option.splits if_splits)

lemma collect_no_conflict: "collect cid env w = (r, w') \<Longrightarrow> r \<noteq> Some (Inl (NameConflict n))"
  by (auto simp: collect_def daemon_defs Let_def
      split: option.splits sum.splits prod.splits if_splits)

lemma collect_wf: "collect cid env w = (r, w') \<Longrightarrow> wf_world w \<Longrightarrow> wf_world w'"
  by (auto simp: collect_def daemon_defs Let_def wf_world_def split: option.splits sum.splits prod.splits)

lemma req_name_sandbox_request [simp]: "req_name (sandbox_request code) = container_name"
  by (simp add: sandbox_request_def)

lemma sandbox_try_no_conflict:
  assumes "wf_world w"
  shows "fst (sandbox_try code env w) \<noteq> Some (Inl (NameConflict n))"
proof -
  obtain r1 w1 where i: "images_get python_image (images_get_fault env) w = (r1, w1)"
    by (cases "images_get python_image (images_get_fault env) w")
  note wf1 = images_get_wf [OF i assms] and r1 = images_get_no_conflict [OF i, of n]
  obtain r2 w2 where p: "pre_cleanup env w1 = (r2, w2)"
    by (cases "pre_cleanup env w1")
  note r2 = pre_cleanup_no_conflict [OF p, of n]
  let ?w = "logger INFO (lit ''Creating and running the container...'') w2"
  obtain r3 w3 where c: "containers_run (sandbox_request code) env ?w = (r3, w3)"
    by (cases "containers_run (sandbox_request code) env ?w")
  have r3: "r3 \<noteq> Inl (NameConflict n)" if "r2 = None"
    using containers_run_no_conflict [OF c] pre_cleanup_free [OF _ wf1] p that by simp
  show ?thesis
    using i p c r1 r2 r3
    by (auto simp: sandbox_try_def split: sum.splits option.splits prod.splits
        dest: collect_no_conflict)
qed

lemma sandbox_try_wf:
  assumes "sandbox_try code env w = (r, c, w')" "wf_world w"
  shows "wf_world w'"
  using assms
  by (auto simp: sandbox_try_def split: sum.splits option.splits prod.splits
      dest!: images_get_wf pre_cleanup_wf containers_run_wf collect_wf)

lemma sandbox_finally_wf: "wf_world w \<Longrightarrow> wf_world (sandbox_finally c env w)"
  by (auto simp: sandbox_finally_def split: option.splits sum.splits prod.splits
      dest: container_remove_wf)

lemma run_code_in_sandbox_wf:
  assumes "wf_world w"
  shows "wf_world (snd (run_code_in_sandbox code env w))"
  using assms
  by (auto simp: run_code_in_sandbox_def sandbox_finally_wf
      split: option.splits sum.splits prod.splits dest: sandbox_try_wf)

lemma images_get_calls:
  "images_get img f w = (r, w') \<Longrightarrow> calls w' = calls w @ [ImagesGet img] \<and> next_id w' = next_id w"
  by (auto simp: images_get_def called_def Let_def split: option.splits if_splits)

lemma pre_cleanup_calls:
  assumes "pre_cleanup env w = (r, w')" and "wf_world w"
  shows "next_id w' = next_id w \<and>
    (\<exists>xs. calls w' = calls w @ xs \<and> filter (is_teardown (next_id w)) xs = []
       \<and> concat (map run_request_of xs) = [])"
proof (cases "find (\<lambda>c. c_name c = container_name) (containers w)")
  case None
  with assms(1) show ?thesis
    by (auto simp: pre_cleanup_def containers_get_def called_def Let_def
        split: option.splits if_splits)
next
  case (Some c)
  then have "c_id c < next_id w"
    using assms(2) by (auto simp: wf_world_def dest: find_SomeD)
  with assms(1) Some show ?thesis
    by (auto simp: pre_cleanup_def containers_get_def container_remove_def called_def Let_def
        split: option.splits if_splits)
qed

lemma containers_run_calls:
  "containers_run req env w = (r, w') \<Longrightarrow> calls w' = calls w @ [ContainersRun req]"
  by (auto simp: containers_run_def called_def Let_def split: option.splits if_splits)

lemma collect_calls:
  "collect cid env w = (r, w') \<Longrightarrow>
   \<exists>xs. calls w' = calls w @ xs \<and> filter (is_teardown n) xs = []
     \<and> concat (map run_request_of xs) = []"
  by (auto simp: collect_def daemon_defs Let_def split: option.splits sum.splits prod.splits)

lemma sandbox_try_calls:
  assumes "sandbox_try code env w = (r, c, w')" and "wf_world w"
  shows "\<exists>xs. calls w' = calls w @ xs \<and> filter (is_teardown (next_id w)) xs = []"
    and "c = Some cid \<Longrightarrow> cid = next_id w"
proof -
  obtain r1 w1 where i: "images_get python_image (images_get_fault env) w = (r1, w1)"
    by (cases "images_get python_image (images_get_fault env) w")
  note wf1 = images_get_wf [OF i assms(2)] and c1 = images_get_calls [OF i]
  obtain r2 w2 where p: "pre_cleanup env w1 = (r2, w2)"
    by (cases "pre_cleanup env w1")
  from pre_cleanup_calls [OF p wf1] c1 obtain xs2 where
    c2: "next_id w2 = next_id w" "calls w2 = calls w @ ImagesGet python_image # xs2"
      "filter (is_teardown (next_id w)) xs2 = []"
    by auto
  let ?w = "logger INFO (lit ''Creating and running the container...'') w2"
  obtain r3 w3 where c: "containers_run (sandbox_request code) env ?w = (r3, w3)"
    by (cases "containers_run (sandbox_request code) env ?w")
  have c3: "calls w3 = calls w @ ImagesGet python_image # xs2 @ [ContainersRun (sandbox_request code)]"
    using containers_run_calls [OF c] c2 by (simp add: logger_def)
  have id3: "r3 = Inr cid' \<Longrightarrow> cid' = next_id w" for cid'
    using containers_run_id [of "sandbox_request code" env ?w cid' w3] c c2 by (simp add: logger_def)
  show "\<exists>xs. calls w' = calls w @ xs \<and> filter (is_teardown (next_id w)) xs = []"
    using assms(1) i p c c1 c2 c3
    by (auto simp: sandbox_try_def split: sum.splits option.splits prod.splits
        dest!: collect_calls [where n = "next_id w"])
  show "c = Some cid \<Longrightarrow> cid = next_id w"
    using assms(1) i p c id3
    by (auto simp: sandbox_try_def split: sum.splits option.splits prod.splits)
qed

lemma sandbox_finally_calls:
  "calls (sandbox_finally c env w) =
     calls w @ (case c of None \<Rightarrow> [] | Some cid \<Rightarrow> [ContainerRemove cid True])"
  by (auto simp: sandbox_finally_def container_remove_def called_def logger_def Let_def
      split: option.splits)

lemma run_code_in_sandbox_calls:
  assumes "sandbox_try code env w = (r, c, w1)" and "from_env_fault env = None"
  shows "calls (snd (run_code_in_sandbox code env w)) =
     calls w1 @ (case (r, c) of (Some _, Some cid) \<Rightarrow> [ContainerRemove cid True] | _ \<Rightarrow> [])"
  using assms
  by (auto simp: run_code_in_sandbox_def sandbox_finally_calls logger_def
      split: sum.splits option.splits)

lemma teardown_count:
  assumes "wf_world w" and "from_env_fault env = None"
  shows "teardown_attempts code env w =
     (if provisioned code env w \<and> ends code env w then 1 else 0)"
proof -
  obtain r c w1 where t: "sandbox_try code env w = (r, c, w1)"
    by (cases "sandbox_try code env w")
  from sandbox_try_calls(1) [OF t assms(1)] obtain xs where
    xs: "calls w1 = calls w @ xs" "filter (is_teardown (next_id w)) xs = []"
    by auto
  have "teardown_attempts code env w =
      length (filter (is_teardown (next_id w))
        (case (r, c) of (Some _, Some cid) \<Rightarrow> [ContainerRemove cid True] | _ \<Rightarrow> []))"
    using run_code_in_sandbox_calls [OF t assms(2)] xs
    by (simp add: teardown_attempts_def new_calls_def)
  moreover have "ends code env w \<longleftrightarrow> r \<noteq> None"
    using t assms(2)
    by (auto simp: ends_def run_code_in_sandbox_def split: option.splits sum.splits)
  ultimately show ?thesis
    using t sandbox_try_calls(2) [OF t assms(1)]
    by (auto simp: provisioned_def split: option.splits)
qed

lemma run_code_in_sandbox_teardown_indep:
  "fst (run_code_in_sandbox code (env\<lparr>teardown_fault := f\<rparr>) w) = fst (run_code_in_sandbox code env w)"
  by (auto simp: run_code_in_sandbox_def sandbox_try_teardown_indep split: option.splits sum.splits prod.splits)

lemma run_code_in_sandbox_returns:
  "from_env_fault env = None \<Longrightarrow> ends code env w \<Longrightarrow>
   \<exists>r. fst (run_code_in_sandbox code env w) = Some (Inr r)"
  by (auto simp: ends_def run_code_in_sandbox_def split: option.splits sum.splits prod.splits)


subsection \<open>The successful path, the files and the requests\<close>

lemma logger_fields [simp]:
  "files (logger l m w) = files w" "next_id (logger l m w) = next_id w"
  "containers (logger l m w) = containers w" "images (logger l m w) = images w"
  "calls (logger l m w) = calls w" "prompts (logger l m w) = prompts w"
  by (simp_all add: logger_def)

lemma called_fields [simp]:
  "files (called c w) = files w" "next_id (called c w) = next_id w"
  "containers (called c w) = containers w" "images (called c w) = images w"
  "logged (called c w) = logged w" "prompts (called c w) = prompts w"
  by (simp_all add: called_def)

lemma find_last_id:
  "(\<forall>c \<in> set xs. c_id c < n) \<Longrightarrow> c_id x = n \<Longrightarrow> find (\<lambda>c. c_id c = n) (xs @ [x]) = Some x"
  by (induction xs) auto

lemma pre_cleanup_ok:
  assumes "wf_world w" and "containers_get_fault env = None" and "stale_remove_fault env = None"
  shows "\<exists>w'. pre_cleanup env w = (None, w') \<and> files w' = files w \<and> next_id w' = next_id w
    \<and> wf_world w' \<and> \<not> name_in_use w' container_name"
proof -
  have "fst (pre_cleanup env w) = None \<and> files (snd (pre_cleanup env w)) = files w
      \<and> next_id (snd (pre_cleanup env w)) = next_id w"
    using assms(2,3)
    by (auto simp: pre_cleanup_def containers_get_def container_remove_def called_def Let_def
        split: option.splits dest: find_SomeD)
  then obtain w' where w': "pre_cleanup env w = (None, w')" "files w' = files w" "next_id w' = next_id w"
    by (cases "pre_cleanup env w") auto
  with pre_cleanup_wf [OF w'(1) assms(1)] pre_cleanup_free [OF w'(1) assms(1)]
  show ?thesis by simp
qed

lemma containers_run_ok:
  assumes "\<not> name_in_use w (req_name req)" and "create_fault env = None" and "start_fault env = None"
  shows "\<exists>w'. containers_run req env w = (Inr (next_id w), w')
    \<and> containers w' = containers w @
        [\<lparr>c_id = next_id w, c_name = req_name req,
          c_stdout = p_stdout (process env req (files w)),
          c_stderr = p_stderr (process env req (files w)),
          c_status = p_status (process env req (files w)),
          c_exited = p_terminates (process env req (files w))\<rparr>]"
  using assms by (simp add: containers_run_def Let_def called_def)

lemma collect_ok:
  assumes "find (\<lambda>c. c_id c = cid) (containers w) = Some c" and "c_exited c"
    and "wait_fault env = None" and "logs_stdout_fault env = None" and "logs_stderr_fault env = None"
  shows "fst (collect cid env w) =
    (case decode_utf8 (c_stdout c) of
       None \<Rightarrow> Some (Inl UnicodeDecodeError)
     | Some out \<Rightarrow>
         (case decode_utf8 (c_stderr c) of
            None \<Rightarrow> Some (Inl UnicodeDecodeError)
          | Some err \<Rightarrow>
              Some (Inr \<lparr>stdout = out, stderr = err,
                exit_code = (case c_status c of Some s \<Rightarrow> s | None \<Rightarrow> 0)\<rparr>)))"
  using assms by (simp add: collect_def daemon_defs Let_def split: option.splits)

lemma collect_blocks:
  assumes "find (\<lambda>c. c_id c = cid) (containers w) = Some c" and "\<not> c_exited c"
    and "wait_fault env = None"
  shows "fst (collect cid env w) = None"
  using assms by (simp add: collect_def daemon_defs Let_def)

text \<open>
  When no call fails and the image is present, the outcome of the \<open>try\<close> block is a
  function of the behaviour of the process.
\<close>

lemma sandbox_try_ok:
  assumes "wf_world w" and "no_faults env" and "python_image \<in> images w"
  shows "fst (sandbox_try code env w) =
    (let p = process env (sandbox_request code) (files w) in
     if \<not> p_terminates p then None
     else
       (case decode_utf8 (p_stdout p) of
          None \<Rightarrow> Some (Inl UnicodeDecodeError)
        | Some out \<Rightarrow>
            (case decode_utf8 (p_stderr p) of
               None \<Rightarrow> Some (Inl UnicodeDecodeError)
             | Some err \<Rightarrow>
                 Some (Inr \<lparr>stdout = out, stderr = err,
                   exit_code = (case p_status p of Some s \<Rightarrow> s | None \<Rightarrow> 0)\<rparr>))))"
proof -
  let ?w1 = "called (ImagesGet python_image) w"
  have i: "images_get python_image (images_get_fault env) w = (Inr (), ?w1)"
    using assms(2,3) by (simp add: images_get_def no_faults_def)
  have wf1: "wf_world ?w1" using assms(1) by simp
  from pre_cleanup_ok [OF wf1] assms(2) obtain w2 where
    p: "pre_cleanup env ?w1 = (None, w2)" "files w2 = files w" "next_id w2 = next_id w"
      "wf_world w2" "\<not> name_in_use w2 container_name"
    by (auto simp: no_faults_def)
  let ?w = "logger INFO (lit ''Creating and running the container...'') w2"
  let ?out = "process env (sandbox_request code) (files w)"
  let ?c = "\<lparr>c_id = next_id w, c_name = container_name, c_stdout = p_stdout ?out,
      c_stderr = p_stderr ?out, c_status = p_status ?out, c_exited = p_terminates ?out\<rparr>"
  from containers_run_ok [of ?w "sandbox_request code" env] p assms(2) obtain w3 where
    c: "containers_run (sandbox_request code) env ?w = (Inr (next_id w), w3)"
      "containers w3 = containers w2 @ [?c]"
    by (auto simp: no_faults_def)
  have f: "find (\<lambda>c. c_id c = next_id w) (containers w3) = Some ?c"
    using p(3,4) c(2) by (simp add: find_last_id wf_world_def)
  have "fst (collect (next_id w) env w3) =
      (if \<not> p_terminates ?out then None
       else
         (case decode_utf8 (p_stdout ?out) of
            None \<Rightarrow> Some (Inl UnicodeDecodeError)
          | Some out \<Rightarrow>
              (case decode_utf8 (p_stderr ?out) of
                 None \<Rightarrow> Some (Inl UnicodeDecodeError)
               | Some err \<Rightarrow>
                   Some (Inr \<lparr>stdout = out, stderr = err,
                     exit_code = (case p_status ?out of Some s \<Rightarrow> s | None \<Rightarrow> 0)\<rparr>))))"
    using assms(2) collect_ok [OF f, of env] collect_blocks [OF f, of env]
    by (auto simp: no_faults_def split: option.splits)
  then show ?thesis
    using i p(1) c(1) by (auto simp: sandbox_try_def Let_def split: prod.splits)
qed

lemma images_get_files: "images_get img f w = (r, w') \<Longrightarrow> files w' = files w"
  by (auto simp: images_get_def Let_def split: option.splits if_splits)

lemma pre_cleanup_files: "pre_cleanup env w = (r, w') \<Longrightarrow> files w' = files w"
  by (auto simp: pre_cleanup_def containers_get_def container_remove_def called_def Let_def
      split: option.splits if_splits)

lemma pre_cleanup_run_requests:
  "pre_cleanup env w = (r, w') \<Longrightarrow>
   \<exists>xs. calls w' = calls w @ xs \<and> concat (map run_request_of xs) = []"
  by (auto simp: pre_cleanup_def containers_get_def container_remove_def called_def Let_def
      split: option.splits if_splits)

lemma containers_run_files:
  "containers_run req env w = (r, w') \<Longrightarrow>
   files w' = (case r of Inl e \<Rightarrow> files w | Inr cid \<Rightarrow> p_files (process env req (files w)))"
  by (auto simp: containers_run_def called_def Let_def split: option.splits if_splits)

lemma collect_files: "collect cid env w = (r, w') \<Longrightarrow> files w' = files w"
  by (auto simp: collect_def daemon_defs Let_def split: option.splits sum.splits prod.splits)

lemma sandbox_finally_files [simp]: "files (sandbox_finally c env w) = files w"
  by (auto simp: sandbox_finally_def container_remove_def called_def logger_def Let_def
      split: option.splits)

lemma sandbox_try_files:
  assumes "sandbox_try code env w = (r, c, w')"
  shows "files w' = (case c of None \<Rightarrow> files w
                     | Some cid \<Rightarrow> p_files (process env (sandbox_request code) (files w)))"
proof -
  obtain r1 w1 where i: "images_get python_image (images_get_fault env) w = (r1, w1)"
    by (cases "images_get python_image (images_get_fault env) w")
  obtain r2 w2 where p: "pre_cleanup env w1 = (r2, w2)"
    by (cases "pre_cleanup env w1")
  let ?w = "logger INFO (lit ''Creating and running the container...'') w2"
  obtain r3 w3 where c: "containers_run (sandbox_request code) env ?w = (r3, w3)"
    by (cases "containers_run (sandbox_request code) env ?w")
  have f2: "files w2 = files w"
    using images_get_files [OF i] pre_cleanup_files [OF p] by simp
  show ?thesis
    using assms i p c f2 images_get_files [OF i] containers_run_files [OF c]
    by (auto simp: sandbox_try_def split: sum.splits option.splits prod.splits
        dest!: collect_files)
qed

lemma sandbox_try_run_requests:
  assumes "sandbox_try code env w = (r, c, w')"
  shows "\<exists>xs. calls w' = calls w @ xs \<and>
     concat (map run_request_of xs) =
       (case images_get python_image (images_get_fault env) w of
          (Inl e, w1) \<Rightarrow> []
        | (Inr _, w1) \<Rightarrow> if fst (pre_cleanup env w1) = None then [sandbox_request code] else [])"
proof -
  obtain r1 w1 where i: "images_get python_image (images_get_fault env) w = (r1, w1)"
    by (cases "images_get python_image (images_get_fault env) w")
  note c1 = images_get_calls [OF i]
  obtain r2 w2 where p: "pre_cleanup env w1 = (r2, w2)"
    by (cases "pre_cleanup env w1")
  from pre_cleanup_run_requests [OF p] c1 obtain xs2 where
    c2: "calls w2 = calls w @ ImagesGet python_image # xs2" "concat (map run_request_of xs2) = []"
    by auto
  let ?w = "logger INFO (lit ''Creating and running the container...'') w2"
  obtain r3 w3 where c: "containers_run (sandbox_request code) env ?w = (r3, w3)"
    by (cases "containers_run (sandbox_request code) env ?w")
  have c3: "calls w3 = calls w @ ImagesGet python_image # xs2 @ [ContainersRun (sandbox_request code)]"
    using containers_run_calls [OF c] c2 by simp
  show ?thesis
    using assms i p c c1 c2 c3
    by (auto simp: sandbox_try_def simp del: concat_eq_Nil_conv
        split: sum.splits option.splits prod.splits dest!: collect_calls [where n = 0])
qed

lemma run_requests_eq:
  "run_requests code env w = (if reaches_run env w then [sandbox_request code] else [])"
proof (cases "from_env_fault env")
  case (Some m)
  then show ?thesis
    by (simp add: run_requests_def run_code_in_sandbox_def reaches_run_def new_calls_def)
next
  case None
  obtain r c w1 where t: "sandbox_try code env w = (r, c, w1)"
    by (cases "sandbox_try code env w")
  from sandbox_try_run_requests [OF t] obtain xs where
    xs: "calls w1 = calls w @ xs"
      "concat (map run_request_of xs) =
       (case images_get python_image (images_get_fault env) w of
          (Inl e, w1) \<Rightarrow> []
        | (Inr _, w1) \<Rightarrow> if fst (pre_cleanup env w1) = None then [sandbox_request code] else [])"
    by auto
  have "run_requests code env w = concat (map run_request_of xs)"
    using run_code_in_sandbox_calls [OF t None] xs(1)
    by (auto simp: run_requests_def new_calls_def split: option.splits)
  with xs(2) None show ?thesis
    by (auto simp: reaches_run_def split: prod.splits sum.splits)
qed

lemma run_code_in_sandbox_files:
  "files (snd (run_code_in_sandbox code env w)) =
     (if from_env_fault env = None \<and> provisioned code env w
      then p_files (process env (sandbox_request code) (files w)) else files w)"
proof (cases "from_env_fault env")
  case (Some m)
  then show ?thesis by (simp add: run_code_in_sandbox_def)
next
  case None
  obtain r c w1 where t: "sandbox_try code env w = (r, c, w1)"
    by (cases "sandbox_try code env w")
  from sandbox_try_files [OF t] t None show ?thesis
    by (auto simp: run_code_in_sandbox_def provisioned_def split: sum.splits option.splits)
qed

subsection \<open>The number of the created container\<close>

lemma collect_next_id: "collect cid env w = (r, w') \<Longrightarrow> next_id w' = next_id w"
  by (auto simp: collect_def daemon_defs Let_def
      split: option.splits sum.splits prod.splits if_splits)

lemma containers_run_next_id:
  "containers_run req env w = (Inr cid, w') \<Longrightarrow> next_id w' = Suc (next_id w)"
  by (auto simp: containers_run_def called_def Let_def split: option.splits if_splits)

lemma pre_cleanup_next_id: "pre_cleanup env w = (r, w') \<Longrightarrow> next_id w' = next_id w"
  by (auto simp: pre_cleanup_def containers_get_def container_remove_def called_def Let_def
      split: option.splits if_splits)

lemma sandbox_finally_next_id [simp]: "next_id (sandbox_finally c env w) = next_id w"
  by (auto simp: sandbox_finally_def container_remove_def called_def logger_def Let_def
      split: option.splits)

lemma sandbox_try_next_id:
  assumes "sandbox_try code env w = (r, Some cid, w')"
  shows "next_id w' = Suc (next_id w)"
proof -
  obtain r1 w1 where i: "images_get python_image (images_get_fault env) w = (r1, w1)"
    by (cases "images_get python_image (images_get_fault env) w")
  obtain r2 w2 where p: "pre_cleanup env w1 = (r2, w2)"
    by (cases "pre_cleanup env w1")
  let ?w = "logger INFO (lit ''Creating and running the container...'') w2"
  obtain r3 w3 where c: "containers_run (sandbox_request code) env ?w = (r3, w3)"
    by (cases "containers_run (sandbox_request code) env ?w")
  have "next_id w2 = next_id w"
    using images_get_calls [OF i] pre_cleanup_next_id [OF p] by simp
  then show ?thesis
    using assms i p c
    by (auto simp: sandbox_try_def split: sum.splits option.splits prod.splits
        dest!: collect_next_id containers_run_next_id)
qed

lemma provisioned_created:
  assumes "from_env_fault env = None" and "provisioned code env w"
  shows "created code env w"
proof -
  obtain r c w1 where t: "sandbox_try code env w = (r, c, w1)"
    by (cases "sandbox_try code env w")
  with assms(2) obtain cid where "c = Some cid"
    by (auto simp: provisioned_def)
  with t sandbox_try_next_id [of code env w r cid w1] assms(1) show ?thesis
    by (auto simp: created_def run_code_in_sandbox_def split: option.splits sum.splits)
qed

subsection \<open>The claims on the sandbox runner\<close>

text \<open>
  C1. The claim: every call returns a well-formed result and no exception leaves
  \<open>run_code_in_sandbox\<close>. Line 14 builds the client before the \<open>try\<close> of line 24: when
  \<open>docker.from_env()\<close> raises, the exception leaves the function, whatever the code, the
  other answers of the environment and the state are, and no result is returned.
\<close>

theorem C1_client_failure_escapes:
  "run_code_in_sandbox code (env\<lparr>from_env_fault := Some m\<rparr>) w
     = (Some (Inl (DockerException m)), w)"
  by (simp add: run_code_in_sandbox_def)

text \<open>
  Once the client is built, a call that ends returns a result, and an exception of the
  \<open>try\<close> block becomes the result with an empty stdout, the rendering of the exception
  as stderr, and the exit code -1.
\<close>

lemma run_code_in_sandbox_normalises:
  "from_env_fault env = None \<Longrightarrow>
   fst (run_code_in_sandbox code env w) =
     (case fst (sandbox_try code env w) of
        None \<Rightarrow> None
      | Some (Inl e) \<Rightarrow> Some (Inr \<lparr>stdout = [], stderr = str_exn env e, exit_code = - 1\<rparr>)
      | Some (Inr r) \<Rightarrow> Some (Inr r))"
  by (auto simp: run_code_in_sandbox_def split: sum.splits prod.splits option.splits)

text \<open>
  The exit code -1 then stands for a caught exception, unless the daemon itself reports
  the status -1 for the process.
\<close>

lemma exit_code_sentinel:
  assumes "from_env_fault env = None"
    and "\<forall>r. fst (sandbox_try code env w) = Some (Inr r) \<longrightarrow> exit_code r \<noteq> - 1"
    and "fst (run_code_in_sandbox code env w) = Some (Inr r)"
  shows "exit_code r = - 1 \<longleftrightarrow> caught code env w \<noteq> None"
  using assms run_code_in_sandbox_normalises [OF assms(1), of code w]
  by (auto simp: caught_def split: sum.splits option.splits)

text \<open>
  C2, as stated, fails: teardown is not attempted on every exit path. On a host without
  the image, the call returns the result of a failed runner, the daemon has created no
  container, and no removal is attempted.
\<close>

theorem C2_counterexample:
  "teardown_attempts code_hi env_ok world_no_image \<noteq> 1
   \<and> fst (run_code_in_sandbox code_hi env_ok world_no_image)
       = Some (Inr \<lparr>stdout = [], stderr = lit ''No such image: data-analyst-image'',
                     exit_code = - 1\<rparr>)
   \<and> \<not> created code_hi env_ok world_no_image
   \<and> new_calls world_no_image (snd (run_code_in_sandbox code_hi env_ok world_no_image))
       = [ImagesGet python_image]"
  by (simp add: teardown_attempts_def created_def new_calls_def sandbox_defs daemon_defs
      concrete_defs render_def python_image_def lit_def)

text \<open>
  C2, amended. For every call that builds its client, from a state that satisfies the
  invariant of the daemon: on every path on which \<open>client.containers.run\<close> has returned
  the container and the call ends (by a result of the code, a failure of the code, or an
  exception of the runner after that point), the forced removal of this container is
  attempted exactly once; on no path is it attempted more than once; when the daemon has
  created no container during the call, it is not attempted. Whether the teardown fails
  changes nothing in the outcome of the call; a call that ends, ends with a result; and a
  failed teardown is the last record of the logger, at level ERROR. Nothing is said of a
  container that was created and did not start.
\<close>

theorem C2_teardown_once_when_provisioned:
  assumes "wf_world w" and "from_env_fault env = None"
  shows "(provisioned code env w \<and> ends code env w \<longrightarrow> teardown_attempts code env w = 1)
    \<and> teardown_attempts code env w \<le> 1
    \<and> (\<not> created code env w \<longrightarrow> teardown_attempts code env w = 0)
    \<and> (\<forall>f. fst (run_code_in_sandbox code (env\<lparr>teardown_fault := f\<rparr>) w)
            = fst (run_code_in_sandbox code env w))
    \<and> (ends code env w \<longrightarrow> (\<exists>r. fst (run_code_in_sandbox code env w) = Some (Inr r)))
    \<and> (provisioned code env w \<and> ends code env w \<longrightarrow> teardown_fault env = Some m \<longrightarrow>
         last (logged (snd (run_code_in_sandbox code env w)))
           = (ERROR, lit ''Error during container cleanup: '' @ str_exn env (APIError m)))"
proof -
  have "last (logged (snd (run_code_in_sandbox code env w)))
      = (ERROR, lit ''Error during container cleanup: '' @ str_exn env (APIError m))"
    if "provisioned code env w" and "ends code env w" and "teardown_fault env = Some m"
    using that assms(2)
    by (auto simp: provisioned_def ends_def run_code_in_sandbox_def sandbox_finally_def
        container_remove_def logger_def Let_def split: sum.splits prod.splits option.splits)
  moreover have "teardown_attempts code env w = 0" if "\<not> created code env w"
    using that teardown_count [OF assms, of code] provisioned_created [OF assms(2), of code w]
    by auto
  ultimately show ?thesis
    using teardown_count [OF assms, of code]
      run_code_in_sandbox_teardown_indep [where code = code and env = env and w = w]
      run_code_in_sandbox_returns [OF assms(2), of code w]
    by auto
qed

theorem C2_witness:
  "wf_world world0 \<and> from_env_fault env_ok = None
   \<and> provisioned code_hi env_ok world0 \<and> ends code_hi env_ok world0
   \<and> teardown_attempts code_hi env_ok world0 = 1
   \<and> \<not> created code_hi env_ok world_no_image
   \<and> teardown_attempts code_hi env_ok world_no_image = 0
   \<and> fst (run_code_in_sandbox code_hi (env_ok\<lparr>teardown_fault := Some (lit ''busy'')\<rparr>) world0)
       = Some (Inr \<lparr>stdout = [104, 105, 10], stderr = [], exit_code = 0\<rparr>)"
proof -
  have wf: "wf_world world0" "wf_world world_no_image"
    by (simp_all add: wf_world_def world0_def world_no_image_def)
  have fe: "from_env_fault env_ok = None" by (simp add: env_ok_def)
  have p: "provisioned code_hi env_ok world0"
    by (simp add: provisioned_def sandbox_defs daemon_defs concrete_defs)
  have r: "fst (run_code_in_sandbox code_hi env_ok world0)
      = Some (Inr \<lparr>stdout = [104, 105, 10], stderr = [], exit_code = 0\<rparr>)"
    by (simp add: sandbox_defs daemon_defs concrete_defs)
  then have e: "ends code_hi env_ok world0"
    by (simp add: ends_def)
  have c: "\<not> created code_hi env_ok world_no_image"
    by (simp add: created_def sandbox_defs daemon_defs concrete_defs)
  from C2_teardown_once_when_provisioned [OF wf(1) fe, of code_hi]
    C2_teardown_once_when_provisioned [OF wf(2) fe, of code_hi] p r e c wf fe
  show ?thesis by simp
qed

text \<open>
  A call blocks for ever on a process that does not end: the \<open>finally\<close> block is not
  reached and no removal is attempted.
\<close>

lemma blocked_call_no_teardown:
  "fst (run_code_in_sandbox code_loop env_loop world0) = None
   \<and> teardown_attempts code_loop env_loop world0 = 0"
  by (simp add: teardown_attempts_def new_calls_def sandbox_defs daemon_defs concrete_defs
      env_loop_def proc_loop_def)

text \<open>
  Outside the amended claim: when the daemon creates the container and fails to start
  it, \<open>client.containers.run\<close> raises, the variable \<open>container\<close> stays unset, no
  removal is attempted and the container stays under the reserved name.
\<close>

lemma created_not_started_is_left:
  "created code_hi (env_ok\<lparr>start_fault := Some (lit ''cannot start'')\<rparr>) world0
   \<and> \<not> provisioned code_hi (env_ok\<lparr>start_fault := Some (lit ''cannot start'')\<rparr>) world0
   \<and> teardown_attempts code_hi (env_ok\<lparr>start_fault := Some (lit ''cannot start'')\<rparr>) world0 = 0
   \<and> name_in_use
        (snd (run_code_in_sandbox code_hi (env_ok\<lparr>start_fault := Some (lit ''cannot start'')\<rparr>) world0))
        container_name"
  by (simp add: created_def provisioned_def teardown_attempts_def new_calls_def sandbox_defs
      daemon_defs concrete_defs)

text \<open>
  C3. From a state that satisfies the invariant of the daemon, the second of two
  consecutive calls never fails with the name conflict of the daemon, whatever the first
  call left behind. The inner block looks the container up under the fixed name first;
  a container found there is removed with \<open>force=True\<close> and the name is free afterwards;
  the absence of such a container is not an error.
\<close>

theorem C3_second_call_no_name_conflict:
  assumes "wf_world w"
  shows "caught code2 env2 (snd (run_code_in_sandbox code1 env1 w)) \<noteq> Some (NameConflict n)
    \<and> (\<exists>xs. calls (snd (pre_cleanup env w)) = calls w @ ContainersGet container_name # xs)
    \<and> (\<forall>c. containers_get_fault env = None \<longrightarrow>
          find (\<lambda>c. c_name c = container_name) (containers w) = Some c \<longrightarrow>
          calls (snd (pre_cleanup env w))
            = calls w @ [ContainersGet container_name, ContainerRemove (c_id c) True])
    \<and> (\<forall>w'. pre_cleanup env w = (None, w') \<longrightarrow> \<not> name_in_use w' container_name)
    \<and> (containers_get_fault env = None \<longrightarrow> \<not> name_in_use w container_name \<longrightarrow>
          pre_cleanup env w = (None, called (ContainersGet container_name) w))"
proof -
  have "fst (sandbox_try code2 env2 (snd (run_code_in_sandbox code1 env1 w)))
      \<noteq> Some (Inl (NameConflict n))"
    by (rule sandbox_try_no_conflict [OF run_code_in_sandbox_wf [OF assms]])
  then have 1: "caught code2 env2 (snd (run_code_in_sandbox code1 env1 w)) \<noteq> Some (NameConflict n)"
    by (auto simp: caught_def split: sum.splits option.splits)
  have 2: "\<exists>xs. calls (snd (pre_cleanup env w)) = calls w @ ContainersGet container_name # xs"
    by (auto simp: pre_cleanup_def containers_get_def container_remove_def called_def Let_def
        split: option.splits)
  have 3: "calls (snd (pre_cleanup env w))
      = calls w @ [ContainersGet container_name, ContainerRemove (c_id c) True]"
    if "containers_get_fault env = None"
      and "find (\<lambda>c. c_name c = container_name) (containers w) = Some c" for c
    using that
    by (auto simp: pre_cleanup_def containers_get_def container_remove_def called_def Let_def
        split: option.splits)
  have 4: "\<not> name_in_use w' container_name" if "pre_cleanup env w = (None, w')" for w'
    by (rule pre_cleanup_free [OF that assms])
  have 5: "pre_cleanup env w = (None, called (ContainersGet container_name) w)"
    if "containers_get_fault env = None" and "\<not> name_in_use w container_name"
  proof -
    from that(2) have "find (\<lambda>c. c_name c = container_name) (containers w) = None"
      by (auto simp: find_None_iff name_in_use_def)
    with that(1) show ?thesis
      by (simp add: pre_cleanup_def containers_get_def Let_def)
  qed
  from 1 2 3 4 5 show ?thesis by blast
qed

text \<open>
  The first call fails to remove its container, which stays under the reserved name; the
  second call removes it and runs. Without the lookup and the removal, the daemon refuses
  the name.
\<close>

theorem C3_witness:
  "wf_world world0
   \<and> name_in_use (snd (run_code_in_sandbox code_hi (env_ok\<lparr>teardown_fault := Some (lit ''busy'')\<rparr>) world0))
       container_name
   \<and> caught code_hi env_ok
       (snd (run_code_in_sandbox code_hi (env_ok\<lparr>teardown_fault := Some (lit ''busy'')\<rparr>) world0))
       \<noteq> Some (NameConflict container_name)
   \<and> caught code_hi env_ok
       (snd (run_code_in_sandbox code_hi (env_ok\<lparr>teardown_fault := Some (lit ''busy'')\<rparr>) world0))
       = None"
proof -
  have wf: "wf_world world0" by (simp add: wf_world_def world0_def)
  have "name_in_use (snd (run_code_in_sandbox code_hi (env_ok\<lparr>teardown_fault := Some (lit ''busy'')\<rparr>) world0))
      container_name"
    by (simp add: sandbox_defs daemon_defs concrete_defs)
  moreover have "caught code_hi env_ok
      (snd (run_code_in_sandbox code_hi (env_ok\<lparr>teardown_fault := Some (lit ''busy'')\<rparr>) world0))
      = None"
    by (simp add: caught_def sandbox_defs daemon_defs concrete_defs)
  ultimately show ?thesis
    using C3_second_call_no_name_conflict [OF wf, of code_hi env_ok code_hi
      "env_ok\<lparr>teardown_fault := Some (lit ''busy'')\<rparr>" container_name env_ok] wf
    by simp
qed

lemma name_conflict_without_pre_cleanup:
  "fst (containers_run (sandbox_request code_hi) env_ok
     (snd (run_code_in_sandbox code_hi (env_ok\<lparr>teardown_fault := Some (lit ''busy'')\<rparr>) world0)))
   = Inl (NameConflict container_name)"
  by (simp add: sandbox_defs daemon_defs concrete_defs)

text \<open>
  C5, as stated, fails: a process that ends with status 0, writes nothing to its standard
  error and writes the byte 0xFF to its standard output does not get its output back. The
  strict decoding of line 45 raises, and the result is the one of a failed runner.
\<close>

theorem C5_counterexample:
  "p_terminates (process env_ff (sandbox_request code_ff) (files world0))
   \<and> p_status (process env_ff (sandbox_request code_ff) (files world0)) = Some 0
   \<and> p_stderr (process env_ff (sandbox_request code_ff) (files world0)) = []
   \<and> p_stdout (process env_ff (sandbox_request code_ff) (files world0)) = [255]
   \<and> fst (run_code_in_sandbox code_ff env_ff world0)
       = Some (Inr \<lparr>stdout = [], stderr = render UnicodeDecodeError, exit_code = - 1\<rparr>)"
  by (simp add: sandbox_defs daemon_defs concrete_defs env_ff_def proc_ff_def)

text \<open>
  C5, amended. For every code string whose process ends, when no call of the SDK fails
  and the image is present: if the two streams of the process are valid UTF-8, the
  result carries the decoded standard output, the decoded standard error (each from its
  own stream) and the status code of the process, or 0 when none is reported; in
  particular a process that ends with status 0 and an empty standard error gets its
  decoded standard output and the exit code 0; if one of the two streams is not valid
  UTF-8, the result is the one of a failed runner, with an empty standard output, the
  rendering of the decoding error as standard error and the exit code -1.
\<close>

theorem C5_streams_and_status:
  assumes "wf_world w" and "no_faults env" and "python_image \<in> images w"
    and "p_terminates (process env (sandbox_request code) (files w))"
  shows "(decode_utf8 (p_stdout (process env (sandbox_request code) (files w))) = Some out \<longrightarrow>
          decode_utf8 (p_stderr (process env (sandbox_request code) (files w))) = Some err \<longrightarrow>
          fst (run_code_in_sandbox code env w) =
            Some (Inr \<lparr>stdout = out, stderr = err,
              exit_code = (case p_status (process env (sandbox_request code) (files w)) of
                             Some s \<Rightarrow> s | None \<Rightarrow> 0)\<rparr>)
          \<and> (p_status (process env (sandbox_request code) (files w)) = Some 0 \<longrightarrow>
             p_stderr (process env (sandbox_request code) (files w)) = [] \<longrightarrow>
             fst (run_code_in_sandbox code env w)
               = Some (Inr \<lparr>stdout = out, stderr = [], exit_code = 0\<rparr>)))
    \<and> (decode_utf8 (p_stdout (process env (sandbox_request code) (files w))) = None
         \<or> decode_utf8 (p_stderr (process env (sandbox_request code) (files w))) = None \<longrightarrow>
        fst (run_code_in_sandbox code env w) =
          Some (Inr \<lparr>stdout = [], stderr = str_exn env UnicodeDecodeError, exit_code = - 1\<rparr>))"
proof -
  have fe: "from_env_fault env = None"
    using assms(2) by (simp add: no_faults_def)
  note t = sandbox_try_ok [OF assms(1-3), of code]
  note n = run_code_in_sandbox_normalises [OF fe, of code w]
  have "err = []"
    if "decode_utf8 (p_stderr (process env (sandbox_request code) (files w))) = Some err"
      and "p_stderr (process env (sandbox_request code) (files w)) = []" for err
    using that by (simp add: decode_utf8_def)
  then show ?thesis
    using t n assms(4) by (auto simp: Let_def split: option.splits)
qed

theorem C5_witness:
  "wf_world world0 \<and> no_faults env_ok \<and> python_image \<in> images world0
   \<and> p_terminates (process env_ok (sandbox_request code_hi) (files world0))
   \<and> decode_utf8 (p_stdout (process env_ok (sandbox_request code_hi) (files world0)))
       = Some (lit ''hi'' @ nl)
   \<and> decode_utf8 (p_stderr (process env_ok (sandbox_request code_hi) (files world0))) = Some []
   \<and> fst (run_code_in_sandbox code_hi env_ok world0)
       = Some (Inr \<lparr>stdout = lit ''hi'' @ nl, stderr = [], exit_code = 0\<rparr>)
   \<and> no_faults env_ff
   \<and> p_terminates (process env_ff (sandbox_request code_ff) (files world0))
   \<and> decode_utf8 (p_stdout (process env_ff (sandbox_request code_ff) (files world0))) = None
   \<and> fst (run_code_in_sandbox code_ff env_ff world0)
       = Some (Inr \<lparr>stdout = [], stderr = str_exn env_ff UnicodeDecodeError, exit_code = - 1\<rparr>)"
proof -
  have 1: "wf_world world0" by (simp add: wf_world_def world0_def)
  have 2: "no_faults env_ok" "no_faults env_ff"
    by (simp_all add: no_faults_def env_ok_def env_ff_def)
  have 3: "python_image \<in> images world0" by (simp add: world0_def)
  have 4: "p_terminates (process env_ok (sandbox_request code_hi) (files world0))"
    "p_terminates (process env_ff (sandbox_request code_ff) (files world0))"
    by (simp_all add: env_ok_def env_ff_def proc_hi_def proc_ff_def)
  have 5: "decode_utf8 (p_stdout (process env_ok (sandbox_request code_hi) (files world0)))
      = Some (lit ''hi'' @ nl)"
    "decode_utf8 (p_stderr (process env_ok (sandbox_request code_hi) (files world0))) = Some []"
    "decode_utf8 (p_stdout (process env_ff (sandbox_request code_ff) (files world0))) = None"
    by (simp_all add: env_ok_def env_ff_def proc_hi_def proc_ff_def decode_utf8_def lit_def nl_def)
  have 6: "p_status (process env_ok (sandbox_request code_hi) (files world0)) = Some 0"
    by (simp add: env_ok_def proc_hi_def)
  from C5_streams_and_status [OF 1 2(1) 3 4(1), of "lit ''hi'' @ nl" "[]"]
    C5_streams_and_status [OF 1 2(2) 3 4(2)] 1 2 3 4 5 6
  show ?thesis by simp
qed

text \<open>
  The hypothesis that the process ends cannot be dropped: on a process that does not
  end, the call never returns.
\<close>

lemma call_blocks_on_endless_process:
  assumes "wf_world w" and "no_faults env" and "python_image \<in> images w"
    and "\<not> p_terminates (process env (sandbox_request code) (files w))"
  shows "fst (run_code_in_sandbox code env w) = None"
proof -
  have "from_env_fault env = None"
    using assms(2) by (simp add: no_faults_def)
  from run_code_in_sandbox_normalises [OF this, of code w] sandbox_try_ok [OF assms(1-3), of code]
    assms(4)
  show ?thesis by (simp add: Let_def)
qed

text \<open>
  C6, as stated, fails: \<open>run_code_in_sandbox\<close> has the code as its only parameter, and
  the host path that it binds is the literal of line 21, not a path of its caller. The
  caller works under \<open>workspace_dir\<close>; the request of a call binds another path.
\<close>

theorem C6_counterexample:
  "run_requests code_hi env_ok world0 = [sandbox_request code_hi]
   \<and> map fst (req_volumes (sandbox_request code_hi)) = [workspace_path]
   \<and> workspace_path \<noteq> workspace_dir"
  by (simp add: run_requests_def new_calls_def sandbox_defs daemon_defs concrete_defs
      workspace_path_def workspace_dir_def lit_def)

text \<open>
  C6, amended. A call sends at most one request to \<open>client.containers.run\<close>, and sends
  it when lines 14 to 31 raise nothing. The request binds the literal host path of line 21
  read-write at \<open>/app/workspace\<close> and carries the code as the third element of the
  command \<open>python -c\<close>. The runner writes no file: the files of the host change only
  through the process of a container that was started.
\<close>

theorem C6_fixed_bind_and_code_as_argument:
  "run_requests code env w = (if reaches_run env w then [sandbox_request code] else [])
   \<and> req_volumes (sandbox_request code) = [(workspace_path, lit ''/app/workspace'', lit ''rw'')]
   \<and> req_command (sandbox_request code) = [lit ''python'', lit ''-c'', code]
   \<and> files (snd (run_code_in_sandbox code env w)) =
       (if from_env_fault env = None \<and> provisioned code env w
        then p_files (process env (sandbox_request code) (files w)) else files w)"
  using run_requests_eq [of code env w] run_code_in_sandbox_files [of code env w]
  by (simp add: sandbox_request_def)

theorem C6_witness:
  "reaches_run env_ok world0
   \<and> run_requests code_hi env_ok world0 =
       [\<lparr>req_image = python_image, req_command = [lit ''python'', lit ''-c'', code_hi],
         req_name = container_name, req_detach = True, req_remove = False,
         req_volumes = [(workspace_path, lit ''/app/workspace'', lit ''rw'')]\<rparr>]
   \<and> files (snd (run_code_in_sandbox code_hi env_ok world0)) = {}"
proof -
  have 1: "reaches_run env_ok world0"
    by (simp add: reaches_run_def sandbox_defs daemon_defs concrete_defs)
  have 2: "provisioned code_hi env_ok world0"
    by (simp add: provisioned_def sandbox_defs daemon_defs concrete_defs)
  have 3: "from_env_fault env_ok = None" "process env_ok = proc_hi" "files world0 = {}"
    by (simp_all add: env_ok_def world0_def)
  from C6_fixed_bind_and_code_as_argument [of code_hi env_ok world0] 1 2 3
  show ?thesis by (simp add: sandbox_request_def proc_hi_def)
qed

section \<open>Properties of the orchestrator\<close>

subsection \<open>Stripping the code fences\<close>

lemma fence_eq: "fence = [96, 96, 96]"
  by (simp add: fence_def lit_def)


















lemma ticks_simps [simp]:
  "ticks [] = 0" "ticks (c # cs) = (if c = 96 then Suc (ticks cs) else 0)"
  by (simp_all add: ticks_def)


lemma ticks_drop_fence: "prefix fence s \<Longrightarrow> ticks s = 3 + ticks (drop 3 s)"
  by (auto simp: prefix_def fence_eq)





subsection \<open>The stages\<close>

lemmas pipeline_defs = create_analysis_def sampler_check_def scraper_stage_def scraper_check_def
  analysis_stage_def analysis_check_def final_answer_def run_generated_def clean_workspace_def
  os_remove_def

lemmas pipeline_concrete_defs = pipeline_env_def env_zero_def env_exit1_def env_nan_def
  env_nan_exit1_def env_hi_def env_seen_def env_stale_def env_locked_def env_warn_def
  script_process_def proc_seen_def proc_warn_def json_toy_def render_toy_def question0_def
  world_ready_def

lemma messages_distinct:
  "distinct [stage1_error, stage2_error, stage3_error, parse_error]"
  by (simp add: stage1_error_def stage2_error_def stage3_error_def parse_error_def lit_def)

lemma paths_distinct [simp]:
  "sampler_output_file (lit ''/'') \<noteq> final_csv_file (lit ''/'')"
  "sampler_output_file (lit ''/'') \<noteq> seen_file"
  "final_csv_file (lit ''/'') \<noteq> seen_file"
  "final_csv_file (lit ''/'') \<noteq> sampler_output_file (lit ''/'')"
  "seen_file \<noteq> sampler_output_file (lit ''/'')"
  "seen_file \<noteq> final_csv_file (lit ''/'')"
  by (simp_all add: sampler_output_file_def final_csv_file_def seen_file_def os_path_join_def
      workspace_dir_def lit_def)

lemma nan_text: "lit ''NaN'' @ nl = [78, 97, 78, 10]"
  by (simp add: lit_def nl_def)

lemma error_response_inj [simp]:
  "(error_response m = (error_response m' :: 'j response)) = (m = m')"
  by (simp add: error_response_def)

text \<open>The answers of the last two stages.\<close>

lemma analysis_check_errors:
  "fst (analysis_check env r w) = Some (Inr (error_response m)) \<Longrightarrow>
   m = stage3_error \<or> m = parse_error"
  by (auto simp: analysis_check_def final_answer_def error_response_def
      split: if_splits sum.splits exn.splits option.splits)

lemma analysis_check_world [simp]: "snd (analysis_check env r w) = w"
  by (auto simp: analysis_check_def split: if_splits sum.splits exn.splits)

lemma analysis_stage_errors:
  "fst (analysis_stage env q w) = Some (Inr (error_response m)) \<Longrightarrow>
   m = stage3_error \<or> m = parse_error"
  by (auto simp: analysis_stage_def split: prod.splits sum.splits option.splits
      dest: analysis_check_errors [where env = env])

lemma scraper_stage_errors:
  "fst (scraper_stage env q w) = Some (Inr (error_response m)) \<Longrightarrow>
   m = stage2_error \<or> m = stage3_error \<or> m = parse_error"
  by (auto simp: scraper_stage_def scraper_check_def
      split: prod.splits sum.splits if_splits option.splits
      dest: analysis_stage_errors [where env = env])

text \<open>The handler applies each check to the result of its own stage.\<close>

lemma create_analysis_stage1:
  assumes "decode_utf8 question = Some qc" and "clean_workspace env w = (None, w0)"
    and "run_generated env 1 sampler_task w0 = (Some (Inr r1), w1)"
  shows "create_analysis env question w = sampler_check env qc r1 w1"
  using assms by (simp add: create_analysis_def)

lemma sampler_check_pass:
  assumes "stderr r1 = []" and "sampler_output_file (path_sep env) \<in> files w1"
  shows "sampler_check env qc r1 w1 = scraper_stage env qc w1"
  using assms by (simp add: sampler_check_def)

lemma scraper_stage_result:
  assumes "run_generated env 2 scraper_task w1 = (Some (Inr r2), w2)"
  shows "scraper_stage env qc w1 = scraper_check env qc r2 w2"
  using assms by (simp add: scraper_stage_def)

lemma scraper_check_pass:
  assumes "stderr r2 = []" and "final_csv_file (path_sep env) \<in> files w2"
  shows "scraper_check env qc r2 w2 = analysis_stage env qc w2"
  using assms by (simp add: scraper_check_def)

lemma analysis_stage_result:
  assumes "run_generated env 3 (analysis_task qc) w2 = (Some (Inr r3), w3)"
  shows "analysis_stage env qc w2 = analysis_check env r3 w3"
  using assms by (simp add: analysis_stage_def)

text \<open>The prompts: the runner sends none, every stage sends one.\<close>

lemma images_get_prompts: "images_get img f w = (r, w') \<Longrightarrow> prompts w' = prompts w"
  by (auto simp: images_get_def called_def Let_def split: option.splits if_splits)

lemma pre_cleanup_prompts: "pre_cleanup env w = (r, w') \<Longrightarrow> prompts w' = prompts w"
  by (auto simp: pre_cleanup_def containers_get_def container_remove_def called_def Let_def
      split: option.splits if_splits)

lemma containers_run_prompts: "containers_run req env w = (r, w') \<Longrightarrow> prompts w' = prompts w"
  by (auto simp: containers_run_def called_def Let_def split: option.splits if_splits)

lemma collect_prompts: "collect cid env w = (r, w') \<Longrightarrow> prompts w' = prompts w"
  by (auto simp: collect_def daemon_defs Let_def
      split: option.splits sum.splits prod.splits if_splits)

lemma sandbox_finally_prompts [simp]: "prompts (sandbox_finally c env w) = prompts w"
  by (auto simp: sandbox_finally_def container_remove_def called_def logger_def Let_def
      split: option.splits)

lemma sandbox_try_prompts:
  assumes "sandbox_try code env w = (r, c, w')"
  shows "prompts w' = prompts w"
proof -
  obtain r1 w1 where i: "images_get python_image (images_get_fault env) w = (r1, w1)"
    by (cases "images_get python_image (images_get_fault env) w")
  obtain r2 w2 where p: "pre_cleanup env w1 = (r2, w2)"
    by (cases "pre_cleanup env w1")
  let ?w = "logger INFO (lit ''Creating and running the container...'') w2"
  obtain r3 w3 where c: "containers_run (sandbox_request code) env ?w = (r3, w3)"
    by (cases "containers_run (sandbox_request code) env ?w")
  show ?thesis
    using assms i p c images_get_prompts [OF i] pre_cleanup_prompts [OF p]
      containers_run_prompts [OF c]
    by (auto simp: sandbox_try_def split: sum.splits option.splits prod.splits
        dest!: collect_prompts)
qed

lemma run_code_in_sandbox_prompts [simp]:
  "prompts (snd (run_code_in_sandbox code env w)) = prompts w"
  by (auto simp: run_code_in_sandbox_def split: option.splits sum.splits prod.splits
      dest!: sandbox_try_prompts)

lemma run_generated_prompts:
  "prompts (snd (run_generated env k task w)) = prompts w @ [create_code_generation_prompt task []]"
  by (simp add: run_generated_def Let_def split: sum.splits)

lemma analysis_stage_prompts:
  "prompts (snd (analysis_stage env q w))
     = prompts w @ [create_code_generation_prompt (analysis_task q) []]"
  using run_generated_prompts [of env 3 "analysis_task q" w]
  by (auto simp: analysis_stage_def split: prod.splits sum.splits option.splits)

lemma scraper_stage_prompts:
  "prefix (prompts w @ [create_code_generation_prompt scraper_task []])
     (prompts (snd (scraper_stage env q w)))"
  using run_generated_prompts [of env 2 scraper_task w]
  by (auto simp: scraper_stage_def scraper_check_def analysis_stage_prompts
      split: prod.splits sum.splits option.splits)

text \<open>Lines 49 to 53 touch the files only, and only the two artifacts.\<close>

lemma clean_workspace_result:
  assumes "clean_workspace env w = (None, w')"
  shows "w' = w\<lparr>files := files w - artifacts env\<rparr>"
proof -
  have 1: "F - {a} - {b} = F - {a, b}" for F :: "str set" and a b
    by blast
  have 2: "a \<notin> F \<Longrightarrow> F - {a, b} = F - {b}" "b \<notin> F \<Longrightarrow> F - {a, b} = F - {a}"
    "a \<notin> F \<Longrightarrow> b \<notin> F \<Longrightarrow> F - {a, b} = F" for F :: "str set" and a b
    by blast+
  show ?thesis
    using assms
    by (auto simp: clean_workspace_def os_remove_def artifacts_def 1 2
        split: if_splits option.splits prod.splits)
qed

lemma clean_workspace_ok:
  assumes "os_remove_fault env (sampler_output_file (path_sep env)) = None"
    and "os_remove_fault env (final_csv_file (path_sep env)) = None"
  shows "clean_workspace env w = (None, w\<lparr>files := files w - artifacts env\<rparr>)"
proof -
  have "fst (clean_workspace env w) = None"
    using assms by (auto simp: clean_workspace_def os_remove_def split: if_splits)
  then show ?thesis
    using clean_workspace_result [of env w "snd (clean_workspace env w)"]
    by (cases "clean_workspace env w") simp
qed

subsection \<open>Two states that a run cannot tell apart\<close>

text \<open>
  A call of the runner answers the same in two states with the same images, the same
  files and the reserved name in use in both or in none, and leaves two such states.
\<close>

lemma same_view_called [simp]: "same_view (called c w) (called c' w') = same_view w w'"
  by (simp add: same_view_def name_in_use_def)

lemma same_view_logger [simp]: "same_view (logger l m w) (logger l' m' w') = same_view w w'"
  by (simp add: same_view_def)

lemma same_view_prompts [simp]:
  "same_view (w\<lparr>prompts := p\<rparr>) (w'\<lparr>prompts := p'\<rparr>) = same_view w w'"
  by (simp add: same_view_def name_in_use_def wf_world_def)

lemma same_container_called [simp]:
  "same_container (i, called c w) (i', called c' w') = same_container (i, w) (i', w')"
  by (simp add: same_container_def cong: option.case_cong)

lemma same_container_logger [simp]:
  "same_container (i, logger l m w) (i', logger l' m' w') = same_container (i, w) (i', w')"
  by (simp add: same_container_def cong: option.case_cong)

lemma same_handle_logger [simp]:
  "same_handle (c, logger l m w) (c', logger l' m' w') = same_handle (c, w) (c', w')"
  by (simp add: same_handle_def split: option.splits)

lemma same_container_view:
  "same_container (i, w) (i', w') \<Longrightarrow> same_view w w'"
  by (auto simp: same_container_def same_view_def name_in_use_def
      split: option.splits dest!: find_SomeD)

lemma same_handle_view: "same_handle (c, w) (c', w') \<Longrightarrow> same_view w w'"
  by (auto simp: same_handle_def split: option.splits dest: same_container_view)

lemma images_get_view:
  assumes "same_view w w'"
  shows "fst (images_get img f w) = fst (images_get img f w')
    \<and> same_view (snd (images_get img f w)) (snd (images_get img f w'))"
  using assms by (auto simp: images_get_def Let_def same_view_def name_in_use_def split: option.splits)

lemma images_get_images: "images_get img f w = (r, w') \<Longrightarrow> images w' = images w"
  by (auto simp: images_get_def Let_def split: option.splits if_splits)

lemma pre_cleanup_images: "pre_cleanup env w = (r, w') \<Longrightarrow> images w' = images w"
  by (auto simp: pre_cleanup_def containers_get_def container_remove_def Let_def
      split: option.splits if_splits)

lemma containers_run_images: "containers_run req env w = (r, w') \<Longrightarrow> images w' = images w"
  by (auto simp: containers_run_def Let_def split: option.splits if_splits)

lemma collect_images: "collect cid env w = (r, w') \<Longrightarrow> images w' = images w"
  by (auto simp: collect_def daemon_defs Let_def
      split: option.splits sum.splits prod.splits if_splits)

lemma collect_containers: "collect cid env w = (r, w') \<Longrightarrow> containers w' = containers w"
  by (auto simp: collect_def daemon_defs Let_def
      split: option.splits sum.splits prod.splits if_splits)

lemma sandbox_finally_images [simp]: "images (sandbox_finally c env w) = images w"
  by (auto simp: sandbox_finally_def container_remove_def Let_def split: option.splits)

lemma sandbox_try_images:
  assumes "sandbox_try code env w = (r, c, w')"
  shows "images w' = images w"
proof -
  obtain r1 w1 where i: "images_get python_image (images_get_fault env) w = (r1, w1)"
    by (cases "images_get python_image (images_get_fault env) w")
  obtain r2 w2 where p: "pre_cleanup env w1 = (r2, w2)"
    by (cases "pre_cleanup env w1")
  let ?w = "logger INFO (lit ''Creating and running the container...'') w2"
  obtain r3 w3 where c: "containers_run (sandbox_request code) env ?w = (r3, w3)"
    by (cases "containers_run (sandbox_request code) env ?w")
  show ?thesis
    using assms i p c images_get_images [OF i] pre_cleanup_images [OF p]
      containers_run_images [OF c]
    by (auto simp: sandbox_try_def split: sum.splits option.splits prod.splits
        dest!: collect_images)
qed

lemma run_code_in_sandbox_images [simp]:
  "images (snd (run_code_in_sandbox code env w)) = images w"
  by (auto simp: run_code_in_sandbox_def split: option.splits sum.splits prod.splits
      dest!: sandbox_try_images)

lemma pre_cleanup_fst:
  assumes "wf_world w"
  shows "fst (pre_cleanup env w) =
    (case containers_get_fault env of
       Some m \<Rightarrow> Some (APIError m)
     | None \<Rightarrow>
         if name_in_use w container_name
         then (case stale_remove_fault env of Some m \<Rightarrow> Some (APIError m) | None \<Rightarrow> None)
         else None)"
  by (auto simp: pre_cleanup_def containers_get_def container_remove_def Let_def name_in_use_def
      find_None_iff split: option.splits dest: find_SomeD)

lemma pre_cleanup_name:
  assumes "wf_world w"
  shows "name_in_use (snd (pre_cleanup env w)) container_name =
    (name_in_use w container_name
     \<and> (containers_get_fault env \<noteq> None \<or> stale_remove_fault env \<noteq> None))"
proof (cases "fst (pre_cleanup env w)")
  case None
  then have "\<not> name_in_use (snd (pre_cleanup env w)) container_name"
    using pre_cleanup_free [of env w "snd (pre_cleanup env w)"] assms
    by (cases "pre_cleanup env w") simp
  with None pre_cleanup_fst [OF assms, of env] show ?thesis
    by (auto split: option.splits if_splits)
next
  case (Some e)
  then show ?thesis
    using pre_cleanup_fst [OF assms, of env]
    by (auto simp: pre_cleanup_def containers_get_def container_remove_def Let_def name_in_use_def
        split: option.splits if_splits dest: find_SomeD)
qed

lemma pre_cleanup_view:
  assumes "same_view w w'"
  shows "fst (pre_cleanup env w) = fst (pre_cleanup env w')
    \<and> same_view (snd (pre_cleanup env w)) (snd (pre_cleanup env w'))"
proof -
  have wf: "wf_world w" "wf_world w'" and n: "name_in_use w container_name = name_in_use w' container_name"
    and e: "images w = images w'" "files w = files w'"
    using assms by (simp_all add: same_view_def)
  have 1: "fst (pre_cleanup env w) = fst (pre_cleanup env w')"
    by (simp add: pre_cleanup_fst wf n)
  have 2: "wf_world (snd (pre_cleanup env w))" "wf_world (snd (pre_cleanup env w'))"
    using pre_cleanup_wf [of env w _ "snd (pre_cleanup env w)"]
      pre_cleanup_wf [of env w' _ "snd (pre_cleanup env w')"] wf
    by (metis prod.collapse)+
  have 3: "images (snd (pre_cleanup env w)) = images w" "images (snd (pre_cleanup env w')) = images w'"
    "files (snd (pre_cleanup env w)) = files w" "files (snd (pre_cleanup env w')) = files w'"
    using pre_cleanup_images pre_cleanup_files by (metis prod.collapse)+
  show ?thesis
    using 1 2 3 e n by (simp add: same_view_def pre_cleanup_name wf)
qed


lemma containers_run_view:
  assumes "same_view w w'" and "req_name req = container_name"
  shows "(case (containers_run req env w, containers_run req env w') of
            ((Inl e, w1), (Inl e', w1')) \<Rightarrow> e = e' \<and> same_view w1 w1'
          | ((Inr i, w1), (Inr i', w1')) \<Rightarrow> same_container (i, w1) (i', w1')
          | _ \<Rightarrow> False)"
proof -
  have wf: "wf_world w" "wf_world w'"
    and n: "name_in_use w container_name = name_in_use w' container_name"
    and e: "images w = images w'" "files w = files w'"
    using assms(1) by (simp_all add: same_view_def)
  have f: "find (\<lambda>c. c_id c = next_id u) (containers u @ [x]) = Some x"
    if "wf_world u" "c_id x = next_id u" for u x
    using that by (intro find_last_id) (auto simp: wf_world_def)
  have g: "wf_world (u\<lparr>calls := cs, containers := containers u @ [x], next_id := Suc (next_id u)\<rparr>)"
    "wf_world (u\<lparr>calls := cs, containers := containers u @ [x], next_id := Suc (next_id u),
        files := F\<rparr>)"
    if "wf_world u" "c_id x = next_id u" "\<not> name_in_use u (c_name x)" for u x cs F
    using that by (auto simp: wf_world_def name_in_use_def less_Suc_eq)
  have h: "wf_world (u\<lparr>calls := cs\<rparr>) = wf_world u" for u cs
    by (simp add: wf_world_def)
  show ?thesis
    using assms(2) wf n e
    by (auto simp: containers_run_def Let_def called_def same_view_def same_container_def
        name_in_use_def f g [unfolded name_in_use_def] h split: option.splits)
qed


lemma collect_view:
  assumes "same_container (i, w) (i', w')"
  shows "fst (collect i env w) = fst (collect i' env w')
    \<and> same_container (i, snd (collect i env w)) (i', snd (collect i' env w'))"
proof -
  obtain c c' where c: "find (\<lambda>c. c_id c = i) (containers w) = Some c"
    "find (\<lambda>c. c_id c = i') (containers w') = Some c'"
    "c_stdout c = c_stdout c'" "c_stderr c = c_stderr c'" "c_status c = c_status c'"
    "c_exited c = c_exited c'"
    using assms by (auto simp: same_container_def split: option.splits)
  have 1: "fst (collect i env w) = fst (collect i' env w')"
    using c
    by (simp add: collect_def container_wait_def container_logs_def Let_def
        split: option.splits)
  have 2: "containers (snd (collect i env w)) = containers w"
    "containers (snd (collect i' env w')) = containers w'"
    "images (snd (collect i env w)) = images w" "images (snd (collect i' env w')) = images w'"
    "files (snd (collect i env w)) = files w" "files (snd (collect i' env w')) = files w'"
    using collect_containers collect_images collect_files by (metis prod.collapse)+
  have 3: "wf_world (snd (collect i env w))" "wf_world (snd (collect i' env w'))"
    using collect_wf [OF surjective_pairing, where cid = i and env = env and w = w]
      collect_wf [OF surjective_pairing, where cid = i' and env = env and w = w'] assms
    by (simp_all add: same_container_def)
  show ?thesis
    using 1 2 3 assms by (simp add: same_container_def cong: option.case_cong)
qed

lemma sandbox_try_view:
  assumes "same_view w w'"
  shows "fst (sandbox_try code env w) = fst (sandbox_try code env w')
    \<and> same_handle (snd (sandbox_try code env w)) (snd (sandbox_try code env w'))"
proof -
  let ?i = "images_get python_image (images_get_fault env)"
  note i = images_get_view [OF assms, of python_image "images_get_fault env"]
  note p = pre_cleanup_view [OF i [THEN conjunct2], of env]
  let ?l = "logger INFO (lit ''Creating and running the container...'')"
  let ?u = "?l (snd (pre_cleanup env (snd (?i w))))"
  let ?u' = "?l (snd (pre_cleanup env (snd (?i w'))))"
  have v: "same_view ?u ?u'"
    using p by simp
  note r = containers_run_view [OF v, of "sandbox_request code" env]
  show ?thesis
  proof (cases "fst (?i w)")
    case (Inl e)
    with i show ?thesis
      by (auto simp: sandbox_try_def same_handle_def split: prod.splits sum.splits)
  next
    case (Inr x)
    note ok = this
    show ?thesis
    proof (cases "fst (pre_cleanup env (snd (?i w)))")
      case (Some e)
      with ok i p show ?thesis
        by (auto simp: sandbox_try_def same_handle_def split: prod.splits sum.splits option.splits)
    next
      case None
      note free = this
      obtain a u1 where a: "containers_run (sandbox_request code) env ?u = (a, u1)"
        by (cases "containers_run (sandbox_request code) env ?u")
      obtain a' u1' where a': "containers_run (sandbox_request code) env ?u' = (a', u1')"
        by (cases "containers_run (sandbox_request code) env ?u'")
      have t: "sandbox_try code env w =
          (case a of Inl e \<Rightarrow> (Some (Inl e), None, u1)
           | Inr cid \<Rightarrow> (fst (collect cid env u1), Some cid, snd (collect cid env u1)))"
        using ok free a
        by (auto simp: sandbox_try_def split: prod.splits sum.splits option.splits)
      have t': "sandbox_try code env w' =
          (case a' of Inl e \<Rightarrow> (Some (Inl e), None, u1')
           | Inr cid \<Rightarrow> (fst (collect cid env u1'), Some cid, snd (collect cid env u1')))"
        using ok free a' i p
        by (auto simp: sandbox_try_def split: prod.splits sum.splits option.splits)
      show ?thesis
      proof (cases a)
        case (Inl e)
        with r a a' show ?thesis
          by (auto simp: t t' same_handle_def split: sum.splits)
      next
        case (Inr cid)
        with r a a' obtain cid' where c: "a' = Inr cid'" "same_container (cid, u1) (cid', u1')"
          by (auto split: sum.splits)
        from collect_view [OF c(2), of env] Inr c(1) show ?thesis
          by (simp add: t t' same_handle_def)
      qed
    qed
  qed
qed

lemma sandbox_finally_view:
  assumes "same_handle (c, w) (c', w')"
  shows "same_view (sandbox_finally c env w) (sandbox_finally c' env w')"
proof (cases c)
  case None
  with assms show ?thesis
    by (auto simp: same_handle_def sandbox_finally_def split: option.splits)
next
  case (Some i)
  with assms obtain i' where i': "c' = Some i'" and s: "same_container (i, w) (i', w')"
    by (auto simp: same_handle_def split: option.splits)
  from s obtain x x' where x: "find (\<lambda>c. c_id c = i) (containers w) = Some x"
    "find (\<lambda>c. c_id c = i') (containers w') = Some x'"
    "c_name x = container_name" "c_name x' = container_name"
    and wf: "wf_world w" "wf_world w'" and e: "images w = images w'" "files w = files w'"
    by (auto simp: same_container_def split: option.splits)
  have free: "\<not> name_in_use (u\<lparr>containers := filter (\<lambda>c. c_id c \<noteq> j) (containers u)\<rparr>) container_name"
    if "wf_world u" "find (\<lambda>c. c_id c = j) (containers u) = Some y" "c_name y = container_name"
    for u j y
  proof -
    from that(2) have y: "y \<in> set (containers u)" "c_id y = j"
      by (auto dest: find_SomeD)
    from that(1) have d: "distinct (map c_name (containers u))"
      by (simp add: wf_world_def)
    show ?thesis
      using remove_found_frees [OF d y(1)] y(2) that(3)
      by (auto simp: name_in_use_def)
  qed
  have keep: "wf_world (u\<lparr>containers := filter (\<lambda>c. c_id c \<noteq> j) (containers u)\<rparr>)"
    if "wf_world u" for u j
    using that by (auto simp: wf_world_def distinct_map_filter)
  have used: "name_in_use w container_name" "name_in_use w' container_name"
    using x by (auto simp: name_in_use_def dest!: find_SomeD)
  have ex: "\<exists>c \<in> set (containers w). c_id c = i" "\<exists>c \<in> set (containers w'). c_id c = i'"
    using x by (auto dest!: find_SomeD)
  show ?thesis
    using Some i' wf e used ex free [OF wf(1) x(1) x(3)] free [OF wf(2) x(2) x(4)]
      keep [OF wf(1), of i] keep [OF wf(2), of i']
    by (cases "teardown_fault env")
      (auto simp: sandbox_finally_def container_remove_def Let_def same_view_def
        name_in_use_def wf_world_def called_def logger_def)
qed

lemma run_code_in_sandbox_view:
  assumes "same_view w w'"
  shows "fst (run_code_in_sandbox code env w) = fst (run_code_in_sandbox code env w')
    \<and> same_view (snd (run_code_in_sandbox code env w)) (snd (run_code_in_sandbox code env w'))"
proof (cases "from_env_fault env")
  case (Some m)
  with assms show ?thesis by (simp add: run_code_in_sandbox_def)
next
  case None
  obtain r c u where t: "sandbox_try code env w = (r, c, u)"
    by (cases "sandbox_try code env w")
  obtain r' c' u' where t': "sandbox_try code env w' = (r', c', u')"
    by (cases "sandbox_try code env w'")
  from sandbox_try_view [OF assms, of code env] t t'
  have r: "r' = r" and h: "same_handle (c, u) (c', u')"
    by simp_all
  show ?thesis
  proof (cases r)
    case None
    with t t' r h \<open>from_env_fault env = None\<close> show ?thesis
      by (simp add: run_code_in_sandbox_def same_handle_view)
  next
    case (Some a)
    show ?thesis
    proof (cases a)
      case (Inl e)
      from h have "same_handle
          (c, logger ERROR (lit ''An unexpected error occurred in code_executor: '' @ str_exn env e) u)
          (c', logger ERROR (lit ''An unexpected error occurred in code_executor: '' @ str_exn env e) u')"
        by simp
      from sandbox_finally_view [OF this, of env] Some Inl t t' r \<open>from_env_fault env = None\<close>
      show ?thesis
        by (simp add: run_code_in_sandbox_def)
    next
      case (Inr x)
      from sandbox_finally_view [OF h, of env] Some Inr t t' r \<open>from_env_fault env = None\<close>
      show ?thesis
        by (simp add: run_code_in_sandbox_def)
    qed
  qed
qed

lemma run_generated_view:
  assumes "same_view w w'"
  shows "fst (run_generated env k task w) = fst (run_generated env k task w')
    \<and> same_view (snd (run_generated env k task w)) (snd (run_generated env k task w'))"
proof -
  let ?p = "create_code_generation_prompt task []"
  have v: "same_view (w\<lparr>prompts := prompts w @ [?p]\<rparr>) (w'\<lparr>prompts := prompts w' @ [?p]\<rparr>)"
    using assms by simp
  show ?thesis
    using v run_code_in_sandbox_view [OF v]
    by (simp add: run_generated_def Let_def split: sum.splits)
qed

lemma analysis_stage_view:
  assumes "same_view w w'"
  shows "fst (analysis_stage env q w) = fst (analysis_stage env q w')"
proof -
  have a: "fst (analysis_check env r u) = fst (analysis_check env r u')" for r u u'
    by (auto simp: analysis_check_def split: sum.splits exn.splits)
  obtain r u where g: "run_generated env 3 (analysis_task q) w = (r, u)"
    by (cases "run_generated env 3 (analysis_task q) w")
  obtain r' u' where g': "run_generated env 3 (analysis_task q) w' = (r', u')"
    by (cases "run_generated env 3 (analysis_task q) w'")
  from run_generated_view [OF assms, of env 3 "analysis_task q"] g g' have "r' = r"
    by simp
  with g g' a show ?thesis
    by (auto simp: analysis_stage_def split: option.splits sum.splits)
qed

lemma scraper_stage_view:
  assumes "same_view w w'"
  shows "fst (scraper_stage env q w) = fst (scraper_stage env q w')"
proof -
  obtain r u where g: "run_generated env 2 scraper_task w = (r, u)"
    by (cases "run_generated env 2 scraper_task w")
  obtain r' u' where g': "run_generated env 2 scraper_task w' = (r', u')"
    by (cases "run_generated env 2 scraper_task w'")
  from run_generated_view [OF assms, of env 2 scraper_task] g g'
  have r: "r' = r" and v: "same_view u u'"
    by simp_all
  from v have f: "files u = files u'"
    by (simp add: same_view_def)
  from g g' r f analysis_stage_view [OF v, of env q] show ?thesis
    by (auto simp: scraper_stage_def scraper_check_def split: option.splits sum.splits)
qed

lemma sampler_stage_view:
  assumes "same_view w w'"
  shows "fst (case run_generated env 1 sampler_task w of
                (None, w1) \<Rightarrow> (None, w1)
              | (Some (Inl e), w1) \<Rightarrow> (Some (Inl e), w1)
              | (Some (Inr r), w1) \<Rightarrow> sampler_check env q r w1)
       = fst (case run_generated env 1 sampler_task w' of
                (None, w1) \<Rightarrow> (None, w1)
              | (Some (Inl e), w1) \<Rightarrow> (Some (Inl e), w1)
              | (Some (Inr r), w1) \<Rightarrow> sampler_check env q r w1)"
proof -
  obtain r u where g: "run_generated env 1 sampler_task w = (r, u)"
    by (cases "run_generated env 1 sampler_task w")
  obtain r' u' where g': "run_generated env 1 sampler_task w' = (r', u')"
    by (cases "run_generated env 1 sampler_task w'")
  from run_generated_view [OF assms, of env 1 sampler_task] g g'
  have r: "r' = r" and v: "same_view u u'"
    by simp_all
  from v have f: "files u = files u'"
    by (simp add: same_view_def)
  from g g' r f scraper_stage_view [OF v, of env q] show ?thesis
    by (auto simp: sampler_check_def split: option.splits sum.splits)
qed

text \<open>The handler changes no image and keeps the invariant of the daemon.\<close>

lemma run_generated_static:
  "images (snd (run_generated env k task w)) = images w
   \<and> (wf_world w \<longrightarrow> wf_world (snd (run_generated env k task w)))"
proof -
  have "wf_world (u\<lparr>prompts := p\<rparr>) = wf_world u" for u p
    by (simp add: wf_world_def)
  then show ?thesis
    using run_code_in_sandbox_wf
    by (auto simp: run_generated_def Let_def split: sum.splits)
qed

lemma analysis_stage_static:
  "images (snd (analysis_stage env q w)) = images w
   \<and> (wf_world w \<longrightarrow> wf_world (snd (analysis_stage env q w)))"
proof -
  obtain r u where g: "run_generated env 3 (analysis_task q) w = (r, u)"
    by (cases "run_generated env 3 (analysis_task q) w")
  have "snd (analysis_stage env q w) = u"
    using g by (auto simp: analysis_stage_def split: option.splits sum.splits)
  with run_generated_static [of env 3 "analysis_task q" w] g show ?thesis
    by simp
qed

lemma scraper_stage_static:
  "images (snd (scraper_stage env q w)) = images w
   \<and> (wf_world w \<longrightarrow> wf_world (snd (scraper_stage env q w)))"
proof -
  obtain r u where g: "run_generated env 2 scraper_task w = (r, u)"
    by (cases "run_generated env 2 scraper_task w")
  have "snd (scraper_stage env q w) = u \<or> snd (scraper_stage env q w) = snd (analysis_stage env q u)"
    using g by (auto simp: scraper_stage_def scraper_check_def split: option.splits sum.splits)
  with run_generated_static [of env 2 scraper_task w] analysis_stage_static [of env q u] g
  show ?thesis
    by auto
qed

lemma clean_workspace_static:
  assumes "clean_workspace env w = (r, w')"
  shows "images w' = images w \<and> containers w' = containers w \<and> next_id w' = next_id w"
  using assms
  by (auto simp: clean_workspace_def os_remove_def split: if_splits option.splits prod.splits)

lemma create_analysis_static:
  "images (snd (create_analysis env question w)) = images w
   \<and> (wf_world w \<longrightarrow> wf_world (snd (create_analysis env question w)))"
proof (cases "decode_utf8 question")
  case None
  then show ?thesis by (simp add: create_analysis_def)
next
  case (Some qc)
  obtain c w0 where c: "clean_workspace env w = (c, w0)"
    by (cases "clean_workspace env w")
  note s = clean_workspace_static [OF c]
  have wf: "wf_world w \<longrightarrow> wf_world w0"
    using s by (simp add: wf_world_def)
  obtain r u where g: "run_generated env 1 sampler_task w0 = (r, u)"
    by (cases "run_generated env 1 sampler_task w0")
  have "snd (create_analysis env question w) = w0 \<or> snd (create_analysis env question w) = u
      \<or> snd (create_analysis env question w) = snd (scraper_stage env qc u)"
    using Some c g
    by (auto simp: create_analysis_def sampler_check_def split: option.splits sum.splits)
  with run_generated_static [of env 1 sampler_task w0] scraper_stage_static [of env qc u] g s wf
  show ?thesis
    by auto
qed

lemma create_analysis_view:
  assumes "os_remove_fault env (sampler_output_file (path_sep env)) = None"
    and "os_remove_fault env (final_csv_file (path_sep env)) = None"
    and "same_view (w\<lparr>files := files w - artifacts env\<rparr>) (w'\<lparr>files := files w' - artifacts env\<rparr>)"
  shows "fst (create_analysis env question w) = fst (create_analysis env question w')"
proof (cases "decode_utf8 question")
  case None
  then show ?thesis by (simp add: create_analysis_def)
next
  case (Some qc)
  from sampler_stage_view [OF assms(3), of env qc] Some show ?thesis
    by (simp add: create_analysis_def clean_workspace_ok [OF assms(1,2)])
qed

subsection \<open>The claims on the orchestrator\<close>

text \<open>
  C4. In a run of \<open>create_analysis\<close> whose stage 1 returns a result, the handler
  answers with the error of stage 1 and the status 500 exactly when the standard error
  of that result is not empty or \<open>scraped_table.html\<close> is absent after the stage,
  whatever the exit code is; the state is then the one that stage 1 left, so that no
  prompt is sent and no call reaches the daemon afterwards (every stage sends a prompt).
  Otherwise stage 2 runs, and when it returns a result the same holds of it, with the
  error of stage 2 and \<open>films.csv\<close>; otherwise stage 3 runs, and the same holds of
  its result, with the error of stage 3 and no file. The three errors differ.
\<close>

theorem C4_stage_checks:
  assumes "decode_utf8 question = Some qc" and "clean_workspace env w = (None, w0)"
    and "run_generated env 1 sampler_task w0 = (Some (Inr r1), w1)"
  shows "(fst (create_analysis env question w) = Some (Inr (error_response stage1_error))
          \<longleftrightarrow> stderr r1 \<noteq> [] \<or> sampler_output_file (path_sep env) \<notin> files w1)
    \<and> (stderr r1 \<noteq> [] \<or> sampler_output_file (path_sep env) \<notin> files w1 \<longrightarrow>
         create_analysis env question w = (Some (Inr (error_response stage1_error)), w1))
    \<and> (\<forall>r2 w2. stderr r1 = [] \<longrightarrow> sampler_output_file (path_sep env) \<in> files w1 \<longrightarrow>
         run_generated env 2 scraper_task w1 = (Some (Inr r2), w2) \<longrightarrow>
         (fst (create_analysis env question w) = Some (Inr (error_response stage2_error))
            \<longleftrightarrow> stderr r2 \<noteq> [] \<or> final_csv_file (path_sep env) \<notin> files w2)
         \<and> (stderr r2 \<noteq> [] \<or> final_csv_file (path_sep env) \<notin> files w2 \<longrightarrow>
              create_analysis env question w = (Some (Inr (error_response stage2_error)), w2))
         \<and> (\<forall>r3 w3. stderr r2 = [] \<longrightarrow> final_csv_file (path_sep env) \<in> files w2 \<longrightarrow>
              run_generated env 3 (analysis_task qc) w2 = (Some (Inr r3), w3) \<longrightarrow>
              (fst (create_analysis env question w) = Some (Inr (error_response stage3_error))
                 \<longleftrightarrow> stderr r3 \<noteq> [])
              \<and> (stderr r3 \<noteq> [] \<longrightarrow>
                   create_analysis env question w
                     = (Some (Inr (error_response stage3_error)), w3))))
    \<and> (\<forall>k task u. prompts (snd (run_generated env k task u))
          = prompts u @ [create_code_generation_prompt task []])
    \<and> (\<forall>m. (error_response m :: 'j response) = \<lparr>status_code = 500, content = ErrorObject m\<rparr>)
    \<and> distinct [stage1_error, stage2_error, stage3_error]"
proof -
  have d: "stage1_error \<noteq> stage2_error" "stage1_error \<noteq> stage3_error"
    "stage1_error \<noteq> parse_error" "stage2_error \<noteq> stage3_error" "stage2_error \<noteq> parse_error"
    "stage3_error \<noteq> parse_error"
    using messages_distinct by auto
  note c1 = create_analysis_stage1 [OF assms]
  have 1: "fst (create_analysis env question w) = Some (Inr (error_response stage1_error))
      \<longleftrightarrow> stderr r1 \<noteq> [] \<or> sampler_output_file (path_sep env) \<notin> files w1"
    using scraper_stage_errors [of env qc w1 stage1_error] d
    by (auto simp: c1 sampler_check_def)
  have 2: "create_analysis env question w = (Some (Inr (error_response stage1_error)), w1)"
    if "stderr r1 \<noteq> [] \<or> sampler_output_file (path_sep env) \<notin> files w1"
    using that by (auto simp: c1 sampler_check_def)
  have 3: "(fst (create_analysis env question w) = Some (Inr (error_response stage2_error))
            \<longleftrightarrow> stderr r2 \<noteq> [] \<or> final_csv_file (path_sep env) \<notin> files w2)
      \<and> (stderr r2 \<noteq> [] \<or> final_csv_file (path_sep env) \<notin> files w2 \<longrightarrow>
           create_analysis env question w = (Some (Inr (error_response stage2_error)), w2))
      \<and> (\<forall>r3 w3. stderr r2 = [] \<longrightarrow> final_csv_file (path_sep env) \<in> files w2 \<longrightarrow>
           run_generated env 3 (analysis_task qc) w2 = (Some (Inr r3), w3) \<longrightarrow>
           (fst (create_analysis env question w) = Some (Inr (error_response stage3_error))
              \<longleftrightarrow> stderr r3 \<noteq> [])
           \<and> (stderr r3 \<noteq> [] \<longrightarrow>
                create_analysis env question w = (Some (Inr (error_response stage3_error)), w3)))"
    if p1: "stderr r1 = []" "sampler_output_file (path_sep env) \<in> files w1"
      and g2: "run_generated env 2 scraper_task w1 = (Some (Inr r2), w2)" for r2 w2
  proof -
    have c2: "create_analysis env question w = scraper_check env qc r2 w2"
      by (simp add: c1 sampler_check_pass [OF p1] scraper_stage_result [OF g2])
    have a: "fst (create_analysis env question w) = Some (Inr (error_response stage2_error))
        \<longleftrightarrow> stderr r2 \<noteq> [] \<or> final_csv_file (path_sep env) \<notin> files w2"
      using analysis_stage_errors [of env qc w2 stage2_error] d
      by (auto simp: c2 scraper_check_def)
    have b: "create_analysis env question w = (Some (Inr (error_response stage2_error)), w2)"
      if "stderr r2 \<noteq> [] \<or> final_csv_file (path_sep env) \<notin> files w2"
      using that by (auto simp: c2 scraper_check_def)
    have c: "(fst (create_analysis env question w) = Some (Inr (error_response stage3_error))
              \<longleftrightarrow> stderr r3 \<noteq> [])
        \<and> (stderr r3 \<noteq> [] \<longrightarrow>
             create_analysis env question w = (Some (Inr (error_response stage3_error)), w3))"
      if p2: "stderr r2 = []" "final_csv_file (path_sep env) \<in> files w2"
        and g3: "run_generated env 3 (analysis_task qc) w2 = (Some (Inr r3), w3)" for r3 w3
    proof -
      have c3: "create_analysis env question w = analysis_check env r3 w3"
        by (simp add: c2 scraper_check_pass [OF p2] analysis_stage_result [OF g3])
      show ?thesis
        using d
        by (auto simp: c3 analysis_check_def final_answer_def error_response_def
            split: sum.splits exn.splits option.splits)
    qed
    from a b c show ?thesis by blast
  qed
  have 4: "prompts (snd (run_generated env k task u))
      = prompts u @ [create_code_generation_prompt task []]" for k task u
    by (rule run_generated_prompts)
  have 5: "(error_response m :: 'j response) = \<lparr>status_code = 500, content = ErrorObject m\<rparr>"
    for m
    by (simp add: error_response_def)
  have 6: "distinct [stage1_error, stage2_error, stage3_error]"
    using d by simp
  from 1 2 3 4 5 6 show ?thesis by blast
qed

text \<open>
  A script that ends with status 0 at every stage and warns on its standard error at
  stage 3, 2 or 1: the answer is the error of that stage, and the number of prompts sent
  is the number of the stage.
\<close>

theorem C4_witness:
  "decode_utf8 question0 = Some (lit ''Q?'')
   \<and> clean_workspace (env_warn 3) world0 = (None, world0)
   \<and> fst (run_generated (env_warn 3) 1 sampler_task world0)
       = Some (Inr \<lparr>stdout = [], stderr = [], exit_code = 0\<rparr>)
   \<and> fst (create_analysis (env_warn 3) question0 world0)
       = Some (Inr \<lparr>status_code = 500, content = ErrorObject stage3_error\<rparr>)
   \<and> length (prompts (snd (create_analysis (env_warn 3) question0 world0))) = 3
   \<and> fst (create_analysis (env_warn 2) question0 world0)
       = Some (Inr \<lparr>status_code = 500, content = ErrorObject stage2_error\<rparr>)
   \<and> length (prompts (snd (create_analysis (env_warn 2) question0 world0))) = 2
   \<and> fst (run_generated (env_warn 1) 1 sampler_task world0)
       = Some (Inr \<lparr>stdout = [], stderr = lit ''w'', exit_code = 0\<rparr>)
   \<and> fst (create_analysis (env_warn 1) question0 world0)
       = Some (Inr \<lparr>status_code = 500, content = ErrorObject stage1_error\<rparr>)
   \<and> length (prompts (snd (create_analysis (env_warn 1) question0 world0))) = 1"
proof -
  note ev = run_generated_def sandbox_defs daemon_defs concrete_defs pipeline_concrete_defs
  have d: "decode_utf8 question0 = Some (lit ''Q?'')"
    by (simp add: question0_def decode_utf8_def lit_def)
  have c: "clean_workspace (env_warn n) world0 = (None, world0)" for n
    by (simp add: clean_workspace_def world0_def)
  define a1 where "a1 = snd (run_generated (env_warn 3) 1 sampler_task world0)"
  define a2 where "a2 = snd (run_generated (env_warn 3) 2 scraper_task a1)"
  define a3 where "a3 = snd (run_generated (env_warn 3) 3 (analysis_task (lit ''Q?'')) a2)"
  have a1: "run_generated (env_warn 3) 1 sampler_task world0
      = (Some (Inr \<lparr>stdout = [], stderr = [], exit_code = 0\<rparr>), a1)"
    "sampler_output_file (path_sep (env_warn 3)) \<in> files a1"
    unfolding a1_def by (simp_all add: prod_eq_iff ev)
  have a2: "run_generated (env_warn 3) 2 scraper_task a1
      = (Some (Inr \<lparr>stdout = [], stderr = [], exit_code = 0\<rparr>), a2)"
    "final_csv_file (path_sep (env_warn 3)) \<in> files a2"
    unfolding a2_def a1_def by (simp_all add: prod_eq_iff ev)
  have a3: "run_generated (env_warn 3) 3 (analysis_task (lit ''Q?'')) a2
      = (Some (Inr \<lparr>stdout = [48, 10], stderr = [119], exit_code = 0\<rparr>), a3)"
    unfolding a3_def a2_def a1_def by (simp add: prod_eq_iff ev)
  have p3: "length (prompts a3) = 3"
    unfolding a3_def a2_def a1_def by (simp add: run_generated_prompts world0_def)
  define b1 where "b1 = snd (run_generated (env_warn 2) 1 sampler_task world0)"
  define b2 where "b2 = snd (run_generated (env_warn 2) 2 scraper_task b1)"
  have b1: "run_generated (env_warn 2) 1 sampler_task world0
      = (Some (Inr \<lparr>stdout = [], stderr = [], exit_code = 0\<rparr>), b1)"
    "sampler_output_file (path_sep (env_warn 2)) \<in> files b1"
    unfolding b1_def by (simp_all add: prod_eq_iff ev)
  have b2: "run_generated (env_warn 2) 2 scraper_task b1
      = (Some (Inr \<lparr>stdout = [], stderr = [119], exit_code = 0\<rparr>), b2)"
    unfolding b2_def b1_def by (simp add: prod_eq_iff ev)
  have q2: "length (prompts b2) = 2"
    unfolding b2_def b1_def by (simp add: run_generated_prompts world0_def)
  define c1 where "c1 = snd (run_generated (env_warn 1) 1 sampler_task world0)"
  have c1: "run_generated (env_warn 1) 1 sampler_task world0
      = (Some (Inr \<lparr>stdout = [], stderr = [119], exit_code = 0\<rparr>), c1)"
    unfolding c1_def by (simp add: prod_eq_iff ev)
  have r1: "length (prompts c1) = 1"
    unfolding c1_def by (simp add: run_generated_prompts world0_def)
  note t3 = C4_stage_checks [OF d c a1(1)]
  note t2 = C4_stage_checks [OF d c b1(1)]
  note t1 = C4_stage_checks [OF d c c1]
  note u3 = t3 [THEN conjunct2, THEN conjunct2, THEN conjunct1, rule_format, OF _ a1(2) a2(1),
    THEN conjunct2, THEN conjunct2, rule_format, OF _ _ a2(2) a3, THEN conjunct2]
  note u2 = t2 [THEN conjunct2, THEN conjunct2, THEN conjunct1, rule_format, OF _ b1(2) b2,
    THEN conjunct2, THEN conjunct1]
  note u1 = t1 [THEN conjunct2, THEN conjunct1]
  have e3: "create_analysis (env_warn 3) question0 world0
      = (Some (Inr (error_response stage3_error)), a3)"
    using u3 by simp
  have e2: "create_analysis (env_warn 2) question0 world0
      = (Some (Inr (error_response stage2_error)), b2)"
    using u2 by simp
  have e1: "create_analysis (env_warn 1) question0 world0
      = (Some (Inr (error_response stage1_error)), c1)"
    using u1 by simp
  from d c [of 3] a1(1) c1 e1 e2 e3 p3 q2 r1 show ?thesis
    by (simp add: error_response_def lit_def)
qed

text \<open>
  C7. The claim: a standard output of stage 3 that parses is forwarded as the body of the
  response, and a failure to parse gives a JSON error object with the status 500. The
  script prints \<open>NaN\<close> at stage 3 and ends with status 0, with an empty standard
  error: \<open>json.loads\<close> parses this text, the construction of the response at line 118
  raises \<open>ValueError\<close>, which \<open>except (json.JSONDecodeError, IndexError)\<close> does not
  catch, and the exception leaves the handler: neither the value nor an error object is
  returned.
\<close>

theorem C7_unrenderable_value_escapes:
  "fst (run_generated env_nan 3 (analysis_task (lit ''Q?''))
          (snd (run_generated env_nan 2 scraper_task
             (snd (run_generated env_nan 1 sampler_task world0)))))
     = Some (Inr \<lparr>stdout = lit ''NaN'' @ nl, stderr = [], exit_code = 0\<rparr>)
   \<and> json_loads env_nan (lit ''NaN'' @ nl) = Inr PyNaN
   \<and> fst (create_analysis env_nan question0 world0)
       = Some (Inl (ValueError (lit ''Out of range float values are not JSON compliant'')))"
  by (simp add: pipeline_defs sandbox_defs daemon_defs concrete_defs pipeline_concrete_defs
      lit_def nl_def)

text \<open>
  In general, every exception of line 116 or line 118 that is neither a
  \<open>JSONDecodeError\<close> nor an \<open>IndexError\<close> leaves the handler: a \<open>ValueError\<close> of
  \<open>json.loads\<close> on an integer of more than 4300 digits, a \<open>RecursionError\<close> on deeply
  nested brackets, a \<open>ValueError\<close> of the response on \<open>NaN\<close> or \<open>Infinity\<close>.
\<close>

lemma final_answer_exception_leaves_handler:
  assumes "decode_utf8 question = Some qc" and "clean_workspace env w = (None, w0)"
    and "run_generated env 1 sampler_task w0 = (Some (Inr r1), w1)"
    and "stderr r1 = []" and "sampler_output_file (path_sep env) \<in> files w1"
    and "run_generated env 2 scraper_task w1 = (Some (Inr r2), w2)"
    and "stderr r2 = []" and "final_csv_file (path_sep env) \<in> files w2"
    and "run_generated env 3 (analysis_task qc) w2 = (Some (Inr r3), w3)"
    and "stderr r3 = []"
    and "final_answer env (stdout r3) = Inl e"
    and "\<forall>m. e \<noteq> JSONDecodeError m" and "\<forall>m. e \<noteq> IndexError m"
  shows "create_analysis env question w = (Some (Inl e), w3)"
proof -
  have "create_analysis env question w = analysis_check env r3 w3"
    by (simp add: create_analysis_stage1 [OF assms(1-3)] sampler_check_pass [OF assms(4,5)]
        scraper_stage_result [OF assms(6)] scraper_check_pass [OF assms(7,8)]
        analysis_stage_result [OF assms(9)])
  then show ?thesis
    using assms(10-13) by (cases e) (simp_all add: analysis_check_def)
qed

text \<open>
  The two paths of the claim that the code follows: a value that parses and that the
  response renders is the body of the response, with the status 200; a
  \<open>JSONDecodeError\<close> gives the status 500 with an error of its own, which is none of
  the errors of the stages.
\<close>

lemma final_answer_paths:
  assumes "decode_utf8 question = Some qc" and "clean_workspace env w = (None, w0)"
    and "run_generated env 1 sampler_task w0 = (Some (Inr r1), w1)"
    and "stderr r1 = []" and "sampler_output_file (path_sep env) \<in> files w1"
    and "run_generated env 2 scraper_task w1 = (Some (Inr r2), w2)"
    and "stderr r2 = []" and "final_csv_file (path_sep env) \<in> files w2"
    and "run_generated env 3 (analysis_task qc) w2 = (Some (Inr r3), w3)"
    and "stderr r3 = []"
  shows "(json_loads env (stdout r3) = Inr v \<longrightarrow> json_render_fault env v = None \<longrightarrow>
           create_analysis env question w
             = (Some (Inr \<lparr>status_code = 200, content = Payload v\<rparr>), w3))
    \<and> (json_loads env (stdout r3) = Inl (JSONDecodeError m) \<longrightarrow>
           create_analysis env question w
             = (Some (Inr \<lparr>status_code = 500, content = ErrorObject parse_error\<rparr>), w3))
    \<and> parse_error \<notin> {stage1_error, stage2_error, stage3_error}"
proof -
  have "create_analysis env question w = analysis_check env r3 w3"
    by (simp add: create_analysis_stage1 [OF assms(1-3)] sampler_check_pass [OF assms(4,5)]
        scraper_stage_result [OF assms(6)] scraper_check_pass [OF assms(7,8)]
        analysis_stage_result [OF assms(9)])
  then show ?thesis
    using assms(10) messages_distinct
    by (auto simp: analysis_check_def final_answer_def error_response_def)
qed

text \<open>
  C8, as stated, fails, in three pairs of consecutive runs with the same question, the
  same answers of the generator and the same behaviour of the environment. The script
  leaves a file of its own in the workspace, which the second run finds: the first run
  answers 0 and the second 1, since lines 49 to 53 delete the two artifacts only. The
  teardown of stage 3 fails and leaves the container under the reserved name, and its
  removal fails in the second run: the first run answers 0 and the second with the error
  of stage 1. The artifacts that the first run leaves cannot be removed: the first run
  answers 0 and \<open>os.remove\<close> raises in the second.
\<close>

theorem C8_counterexample:
  "fst (create_analysis env_seen question0 world0)
     = Some (Inr \<lparr>status_code = 200, content = Payload (PyInt 0)\<rparr>)
   \<and> fst (create_analysis env_seen question0 (snd (create_analysis env_seen question0 world0)))
     = Some (Inr \<lparr>status_code = 200, content = Payload (PyInt 1)\<rparr>)
   \<and> fst (create_analysis env_stale question0 world0)
     = Some (Inr \<lparr>status_code = 200, content = Payload (PyInt 0)\<rparr>)
   \<and> fst (create_analysis env_stale question0 (snd (create_analysis env_stale question0 world0)))
     = Some (Inr \<lparr>status_code = 500, content = ErrorObject stage1_error\<rparr>)
   \<and> fst (create_analysis env_locked question0 world0)
     = Some (Inr \<lparr>status_code = 200, content = Payload (PyInt 0)\<rparr>)
   \<and> fst (create_analysis env_locked question0 (snd (create_analysis env_locked question0 world0)))
     = Some (Inl (OSError (sampler_output_file (lit ''/''))))"
proof -
  note ev = pipeline_defs sandbox_defs daemon_defs concrete_defs pipeline_concrete_defs
    error_response_def nan_text
  have 1: "fst (create_analysis env_seen question0 world0)
     = Some (Inr \<lparr>status_code = 200, content = Payload (PyInt 0)\<rparr>)"
    by (simp add: ev)
  have 2: "fst (create_analysis env_seen question0 (snd (create_analysis env_seen question0 world0)))
     = Some (Inr \<lparr>status_code = 200, content = Payload (PyInt 1)\<rparr>)"
    by (simp add: ev)
  have 3: "fst (create_analysis env_stale question0 world0)
     = Some (Inr \<lparr>status_code = 200, content = Payload (PyInt 0)\<rparr>)"
    by (simp add: ev)
  have 4: "fst (create_analysis env_stale question0 (snd (create_analysis env_stale question0 world0)))
     = Some (Inr \<lparr>status_code = 500, content = ErrorObject stage1_error\<rparr>)"
    by (simp add: ev)
  have 5: "fst (create_analysis env_locked question0 world0)
     = Some (Inr \<lparr>status_code = 200, content = Payload (PyInt 0)\<rparr>)"
    by (simp add: ev)
  have 6: "fst (create_analysis env_locked question0 (snd (create_analysis env_locked question0 world0)))
     = Some (Inl (OSError (sampler_output_file (lit ''/''))))"
    by (simp add: ev)
  from 1 2 3 4 5 6 show ?thesis by simp
qed

text \<open>
  C8, amended. Two consecutive runs with the same question, the same answers of the
  generator and the same behaviour of the environment end in the same way (the same
  response, the same exception, or no return in both), from a state that satisfies the
  invariant of the daemon, when \<open>os.remove\<close> does not fail on the two artifacts and
  the first run leaves the files other than the two artifacts as it found them and the
  reserved name in use exactly if it found it in use. Lines 49 to 53 then delete
  \<open>scraped_table.html\<close> and \<open>films.csv\<close> before stage 1 and leave every other
  file and the daemon as they are.
\<close>

theorem C8_consecutive_runs_agree:
  assumes "wf_world w"
    and "os_remove_fault env (sampler_output_file (path_sep env)) = None"
    and "os_remove_fault env (final_csv_file (path_sep env)) = None"
    and "files (snd (create_analysis env question w)) - artifacts env = files w - artifacts env"
    and "name_in_use (snd (create_analysis env question w)) container_name
           = name_in_use w container_name"
  shows "fst (create_analysis env question (snd (create_analysis env question w)))
           = fst (create_analysis env question w)
    \<and> (\<forall>u. clean_workspace env u = (None, u\<lparr>files := files u - artifacts env\<rparr>))
    \<and> (\<forall>u qc. decode_utf8 question = Some qc \<longrightarrow>
          create_analysis env question u
            = (case run_generated env 1 sampler_task (u\<lparr>files := files u - artifacts env\<rparr>) of
                 (None, w1) \<Rightarrow> (None, w1)
               | (Some (Inl e), w1) \<Rightarrow> (Some (Inl e), w1)
               | (Some (Inr sampler_result), w1) \<Rightarrow> sampler_check env qc sampler_result w1))"
proof -
  let ?w' = "snd (create_analysis env question w)"
  note s = create_analysis_static [of env question w]
  have n: "name_in_use (u\<lparr>files := F\<rparr>) container_name = name_in_use u container_name" for u F
    by (simp add: name_in_use_def)
  have f: "wf_world (u\<lparr>files := F\<rparr>) = wf_world u" for u F
    by (simp add: wf_world_def)
  have "same_view (?w'\<lparr>files := files ?w' - artifacts env\<rparr>) (w\<lparr>files := files w - artifacts env\<rparr>)"
    using s assms(1,4,5) by (simp add: same_view_def n f)
  from create_analysis_view [OF assms(2,3) this, of question]
  have 1: "fst (create_analysis env question ?w') = fst (create_analysis env question w)" .
  have 2: "clean_workspace env u = (None, u\<lparr>files := files u - artifacts env\<rparr>)" for u
    by (rule clean_workspace_ok [OF assms(2,3)])
  from 1 2 show ?thesis
    by (simp add: create_analysis_def)
qed

text \<open>
  The script that prints 0 leaves the two artifacts and no container: the second run
  answers as the first.
\<close>

theorem C8_witness:
  "wf_world world0
   \<and> os_remove_fault env_zero (sampler_output_file (path_sep env_zero)) = None
   \<and> os_remove_fault env_zero (final_csv_file (path_sep env_zero)) = None
   \<and> files (snd (create_analysis env_zero question0 world0))
       = {sampler_output_file (lit ''/''), final_csv_file (lit ''/'')}
   \<and> artifacts env_zero = {sampler_output_file (lit ''/''), final_csv_file (lit ''/'')}
   \<and> files world0 = {}
   \<and> \<not> name_in_use (snd (create_analysis env_zero question0 world0)) container_name
   \<and> \<not> name_in_use world0 container_name
   \<and> fst (create_analysis env_zero question0 world0)
       = Some (Inr \<lparr>status_code = 200, content = Payload (PyInt 0)\<rparr>)
   \<and> fst (create_analysis env_zero question0 (snd (create_analysis env_zero question0 world0)))
       = Some (Inr \<lparr>status_code = 200, content = Payload (PyInt 0)\<rparr>)"
proof -
  note ev = pipeline_defs sandbox_defs daemon_defs concrete_defs pipeline_concrete_defs
    nan_text
  have 1: "wf_world world0" by (simp add: wf_world_def world0_def)
  have 2: "os_remove_fault env_zero (sampler_output_file (path_sep env_zero)) = None"
    "os_remove_fault env_zero (final_csv_file (path_sep env_zero)) = None"
    by (simp_all add: env_zero_def pipeline_env_def)
  have 3: "files (snd (create_analysis env_zero question0 world0))
       = {sampler_output_file (lit ''/''), final_csv_file (lit ''/'')}"
    by (simp add: ev insert_commute)
  have 4: "artifacts env_zero = {sampler_output_file (lit ''/''), final_csv_file (lit ''/'')}"
    "files world0 = {}"
    by (simp_all add: artifacts_def env_zero_def pipeline_env_def world0_def)
  have 5: "\<not> name_in_use (snd (create_analysis env_zero question0 world0)) container_name"
    "\<not> name_in_use world0 container_name"
    by (simp_all add: ev)
  have 6: "fst (create_analysis env_zero question0 world0)
       = Some (Inr \<lparr>status_code = 200, content = Payload (PyInt 0)\<rparr>)"
    by (simp add: ev)
  have 7: "files (snd (create_analysis env_zero question0 world0)) - artifacts env_zero
      = files world0 - artifacts env_zero"
    by (simp add: 3 4)
  from C8_consecutive_runs_agree [OF 1 2 7] 5
  have "fst (create_analysis env_zero question0 (snd (create_analysis env_zero question0 world0)))
      = fst (create_analysis env_zero question0 world0)"
    by simp
  with 1 2 3 4 5 6 show ?thesis by simp
qed



text \<open>
  C10, as stated, fails at its last clause: the script ends with status 1 at every
  stage, the standard error of stage 3 is empty and its standard output, \<open>NaN\<close>,
  parses as JSON; the run is no success, since the construction of the response raises
  and the exception leaves the handler.
\<close>

theorem C10_counterexample:
  "fst (run_generated env_nan_exit1 3 (analysis_task (lit ''Q?''))
          (snd (run_generated env_nan_exit1 2 scraper_task
             (snd (run_generated env_nan_exit1 1 sampler_task world0)))))
     = Some (Inr \<lparr>stdout = lit ''NaN'' @ nl, stderr = [], exit_code = 1\<rparr>)
   \<and> json_loads env_nan_exit1 (lit ''NaN'' @ nl) = Inr PyNaN
   \<and> fst (create_analysis env_nan_exit1 question0 world0)
       = Some (Inl (ValueError (lit ''Out of range float values are not JSON compliant'')))"
  by (simp add: pipeline_defs sandbox_defs daemon_defs concrete_defs pipeline_concrete_defs
      lit_def nl_def)

text \<open>
  C10, amended. No check reads the exit code. In a run of \<open>create_analysis\<close> whose
  stage 1 returns a result with an empty standard error and leaves
  \<open>scraped_table.html\<close>, whatever the exit code is, the prompt of stage 2 is sent;
  when stage 2 returns a result with an empty standard error and leaves \<open>films.csv\<close>,
  the prompt of stage 3 is sent; when stage 3 returns a result with an empty standard
  error and a standard output that parses into a value that the response renders, the
  answer is that value with the status 200. Nothing is said of a value that the response
  does not render.
\<close>

theorem C10_exit_code_not_inspected:
  assumes "decode_utf8 question = Some qc" and "clean_workspace env w = (None, w0)"
    and "run_generated env 1 sampler_task w0 = (Some (Inr r1), w1)"
    and "stderr r1 = []" and "sampler_output_file (path_sep env) \<in> files w1"
  shows "prefix (prompts w @ [create_code_generation_prompt sampler_task [],
                              create_code_generation_prompt scraper_task []])
           (prompts (snd (create_analysis env question w)))
    \<and> (\<forall>r2 w2. run_generated env 2 scraper_task w1 = (Some (Inr r2), w2) \<longrightarrow>
          stderr r2 = [] \<longrightarrow> final_csv_file (path_sep env) \<in> files w2 \<longrightarrow>
          prompts (snd (create_analysis env question w))
            = prompts w @ [create_code_generation_prompt sampler_task [],
                           create_code_generation_prompt scraper_task [],
                           create_code_generation_prompt (analysis_task qc) []]
          \<and> (\<forall>r3 w3 v. run_generated env 3 (analysis_task qc) w2 = (Some (Inr r3), w3) \<longrightarrow>
                stderr r3 = [] \<longrightarrow> json_loads env (stdout r3) = Inr v \<longrightarrow>
                json_render_fault env v = None \<longrightarrow>
                create_analysis env question w
                  = (Some (Inr \<lparr>status_code = 200, content = Payload v\<rparr>), w3)))"
proof -
  have p0: "prompts w0 = prompts w"
    using clean_workspace_result [OF assms(2)] by simp
  have p1: "prompts w1 = prompts w @ [create_code_generation_prompt sampler_task []]"
    using run_generated_prompts [of env 1 sampler_task w0] assms(3) p0 by simp
  have c1: "create_analysis env question w = scraper_stage env qc w1"
    by (simp add: create_analysis_stage1 [OF assms(1-3)] sampler_check_pass [OF assms(4,5)])
  have 1: "prefix (prompts w @ [create_code_generation_prompt sampler_task [],
                                create_code_generation_prompt scraper_task []])
           (prompts (snd (create_analysis env question w)))"
    using scraper_stage_prompts [of w1 env qc] by (simp add: c1 p1)
  have 2: "prompts (snd (create_analysis env question w))
            = prompts w @ [create_code_generation_prompt sampler_task [],
                           create_code_generation_prompt scraper_task [],
                           create_code_generation_prompt (analysis_task qc) []]
      \<and> (\<forall>r3 w3 v. run_generated env 3 (analysis_task qc) w2 = (Some (Inr r3), w3) \<longrightarrow>
            stderr r3 = [] \<longrightarrow> json_loads env (stdout r3) = Inr v \<longrightarrow>
            json_render_fault env v = None \<longrightarrow>
            create_analysis env question w
              = (Some (Inr \<lparr>status_code = 200, content = Payload v\<rparr>), w3))"
    if g2: "run_generated env 2 scraper_task w1 = (Some (Inr r2), w2)"
      and s2: "stderr r2 = []" "final_csv_file (path_sep env) \<in> files w2" for r2 w2
  proof -
    have p2: "prompts w2 = prompts w1 @ [create_code_generation_prompt scraper_task []]"
      using run_generated_prompts [of env 2 scraper_task w1] g2 by simp
    have c2: "create_analysis env question w = analysis_stage env qc w2"
      by (simp add: c1 scraper_stage_result [OF g2] scraper_check_pass [OF s2])
    have a: "prompts (snd (create_analysis env question w))
        = prompts w @ [create_code_generation_prompt sampler_task [],
                       create_code_generation_prompt scraper_task [],
                       create_code_generation_prompt (analysis_task qc) []]"
      by (simp add: c2 analysis_stage_prompts p2 p1)
    have b: "create_analysis env question w
        = (Some (Inr \<lparr>status_code = 200, content = Payload v\<rparr>), w3)"
      if "run_generated env 3 (analysis_task qc) w2 = (Some (Inr r3), w3)"
        and "stderr r3 = []" and "json_loads env (stdout r3) = Inr v"
        and "json_render_fault env v = None" for r3 w3 v
      using that by (simp add: c2 analysis_stage_def analysis_check_def final_answer_def)
    from a b show ?thesis by blast
  qed
  from 1 2 show ?thesis by blast
qed

text \<open>
  The script that prints 0 ends with status 1 at every stage: every result has the exit
  code 1, and the answer is 0 with the status 200.
\<close>

theorem C10_witness:
  "decode_utf8 question0 = Some (lit ''Q?'')
   \<and> clean_workspace env_exit1 world0 = (None, world0)
   \<and> fst (run_generated env_exit1 1 sampler_task world0)
       = Some (Inr \<lparr>stdout = [], stderr = [], exit_code = 1\<rparr>)
   \<and> fst (run_generated env_exit1 2 scraper_task
             (snd (run_generated env_exit1 1 sampler_task world0)))
       = Some (Inr \<lparr>stdout = [], stderr = [], exit_code = 1\<rparr>)
   \<and> fst (run_generated env_exit1 3 (analysis_task (lit ''Q?''))
             (snd (run_generated env_exit1 2 scraper_task
                (snd (run_generated env_exit1 1 sampler_task world0)))))
       = Some (Inr \<lparr>stdout = lit ''0'' @ nl, stderr = [], exit_code = 1\<rparr>)
   \<and> json_loads env_exit1 (lit ''0'' @ nl) = Inr (PyInt 0)
   \<and> json_render_fault env_exit1 (PyInt 0) = None
   \<and> fst (create_analysis env_exit1 question0 world0)
       = Some (Inr \<lparr>status_code = 200, content = Payload (PyInt 0)\<rparr>)
   \<and> length (prompts (snd (create_analysis env_exit1 question0 world0))) = 3"
proof -
  note ev = run_generated_def sandbox_defs daemon_defs concrete_defs pipeline_concrete_defs
  have d: "decode_utf8 question0 = Some (lit ''Q?'')"
    by (simp add: question0_def decode_utf8_def lit_def)
  have c: "clean_workspace env_exit1 world0 = (None, world0)"
    by (simp add: clean_workspace_def world0_def)
  define a1 where "a1 = snd (run_generated env_exit1 1 sampler_task world0)"
  define a2 where "a2 = snd (run_generated env_exit1 2 scraper_task a1)"
  define a3 where "a3 = snd (run_generated env_exit1 3 (analysis_task (lit ''Q?'')) a2)"
  have a1: "run_generated env_exit1 1 sampler_task world0
      = (Some (Inr \<lparr>stdout = [], stderr = [], exit_code = 1\<rparr>), a1)"
    "sampler_output_file (path_sep env_exit1) \<in> files a1"
    unfolding a1_def by (simp_all add: prod_eq_iff ev)
  have a2: "run_generated env_exit1 2 scraper_task a1
      = (Some (Inr \<lparr>stdout = [], stderr = [], exit_code = 1\<rparr>), a2)"
    "final_csv_file (path_sep env_exit1) \<in> files a2"
    unfolding a2_def a1_def by (simp_all add: prod_eq_iff ev)
  have a3: "run_generated env_exit1 3 (analysis_task (lit ''Q?'')) a2
      = (Some (Inr \<lparr>stdout = [48, 10], stderr = [], exit_code = 1\<rparr>), a3)"
    unfolding a3_def a2_def a1_def by (simp add: prod_eq_iff ev)
  have j: "json_loads env_exit1 [48, 10] = Inr (PyInt 0)"
    "json_render_fault env_exit1 (PyInt 0) = None"
    by (simp_all add: env_exit1_def pipeline_env_def json_toy_def render_toy_def lit_def nl_def)
  note t = C10_exit_code_not_inspected [OF d c a1(1) _ a1(2), THEN conjunct2, rule_format,
      OF _ a2(1) _ a2(2)]
  have e: "create_analysis env_exit1 question0 world0
      = (Some (Inr \<lparr>status_code = 200, content = Payload (PyInt 0)\<rparr>), a3)"
    using t [THEN conjunct2, rule_format, OF _ _ a3 _ _ j(2)] j(1) by simp
  have p: "length (prompts (snd (create_analysis env_exit1 question0 world0))) = 3"
    using t [THEN conjunct1] by (simp add: world0_def)
  have f: "fst (run_generated env_exit1 1 sampler_task world0)
      = Some (Inr \<lparr>stdout = [], stderr = [], exit_code = 1\<rparr>)"
    "fst (run_generated env_exit1 2 scraper_task a1)
      = Some (Inr \<lparr>stdout = [], stderr = [], exit_code = 1\<rparr>)"
    "fst (run_generated env_exit1 3 (analysis_task (lit ''Q?'')) a2)
      = Some (Inr \<lparr>stdout = [48, 10], stderr = [], exit_code = 1\<rparr>)"
    "fst (create_analysis env_exit1 question0 world0)
      = Some (Inr \<lparr>status_code = 200, content = Payload (PyInt 0)\<rparr>)"
    using a1(1) a2(1) a3 e by simp_all
  from d c f [unfolded a2_def a1_def] j p show ?thesis
    by (simp add: lit_def nl_def)
qed

end
